theory Spec2Isabelle
  imports Complex_Main "HOL-Library.Sublist"
begin

section \<open>Numbers and the Math built-ins\<close>

text \<open>
  JavaScript numbers are modelled as the real numbers: every operation is the exact one,
  without rounding and without signed zero. \<open>Math.sqrt\<close>, \<open>Math.sin\<close>,
  \<open>Math.cos\<close>, \<open>Math.asin\<close>, \<open>Math.abs\<close> and \<open>Math.sign\<close> are \<^const>\<open>sqrt\<close>,
  \<^const>\<open>sin\<close>, \<^const>\<open>cos\<close>, \<^const>\<open>arcsin\<close>, \<^const>\<open>abs\<close> and \<^const>\<open>sgn\<close>, and on
  real arguments \<open>Math.min\<close> and \<open>Math.max\<close> are \<^const>\<open>min\<close> and \<^const>\<open>max\<close>.
  The program computes in double precision: its results agree with the exact ones up to
  rounding, and a comparison that the last digit decides may go the other way.
\<close>

text \<open>
  The camera methods receive the fields of a command as they arrived, so for the camera a
  number may also be NaN. An argument is a number, \<^verbatim>\<open>null\<close>, or \<^verbatim>\<open>undefined\<close> when
  the command has no such field; arithmetic and \<open>Math.min\<close> convert it with
  \<open>ToNumber\<close>, which takes \<^verbatim>\<open>null\<close> to 0 and \<^verbatim>\<open>undefined\<close> to NaN. Arguments of
  other types (strings, booleans, objects) are not modelled. An operation with a NaN operand
  gives NaN, also \<open>Math.min\<close> and \<open>Math.max\<close>.
\<close>

datatype js_number = Num real | NaN

datatype js_arg = Number real | Null | Undefined

fun toNumber :: "js_arg \<Rightarrow> js_number" where
  "toNumber (Number x) = Num x"
| "toNumber Null = Num 0"
| "toNumber Undefined = NaN"

fun js_add :: "js_number \<Rightarrow> js_number \<Rightarrow> js_number" where
  "js_add (Num a) (Num b) = Num (a + b)"
| "js_add _ _ = NaN"

fun js_negate :: "js_number \<Rightarrow> js_number" where
  "js_negate (Num a) = Num (- a)"
| "js_negate NaN = NaN"

fun Math_min :: "js_number \<Rightarrow> js_number \<Rightarrow> js_number" where
  "Math_min (Num a) (Num b) = Num (min a b)"
| "Math_min _ _ = NaN"

fun Math_max :: "js_number \<Rightarrow> js_number \<Rightarrow> js_number" where
  "Math_max (Num a) (Num b) = Num (max a b)"
| "Math_max _ _ = NaN"

text \<open>A parameter declared with the default \<^verbatim>\<open>= null\<close>: the default replaces
  \<^verbatim>\<open>undefined\<close> only.\<close>

definition defaultNull :: "js_arg \<Rightarrow> js_arg" where
  "defaultNull a = (case a of Undefined \<Rightarrow> Null | _ \<Rightarrow> a)"

text \<open>The remainder operator \<^verbatim>\<open>x % m\<close>: the quotient is truncated toward zero, so the
  result has the sign of \<open>x\<close>.\<close>

definition js_rem :: "real \<Rightarrow> real \<Rightarrow> real" where
  "js_rem x m =
     x - m * of_int (if 0 \<le> x / m then \<lfloor>x / m\<rfloor> else \<lceil>x / m\<rceil>)"

text \<open>\<^verbatim>\<open>Math.atan2(y, x)\<close>: the angle of the point \<open>(x, y)\<close>, in \<open>(-\<pi>, \<pi>]\<close>.\<close>

definition Math_atan2 :: "real \<Rightarrow> real \<Rightarrow> real" where
  "Math_atan2 y x =
     (if 0 < x then arctan (y / x)
      else if x < 0 then (if 0 \<le> y then arctan (y / x) + pi else arctan (y / x) - pi)
      else if 0 < y then pi / 2
      else if y < 0 then - (pi / 2)
      else 0)"

text \<open>\<^verbatim>\<open>THREE.MathUtils.degToRad\<close> and \<^verbatim>\<open>radToDeg\<close>.\<close>

definition degToRad :: "real \<Rightarrow> real" where
  "degToRad degrees = degrees * (pi / 180)"

definition radToDeg :: "real \<Rightarrow> real" where
  "radToDeg radians = radians * (180 / pi)"

section \<open>Vectors, quaternions and the camera\<close>

text \<open>\<^verbatim>\<open>THREE.Vector3\<close> with the methods the program calls. The methods that mutate
  their receiver return the new vector here.\<close>

record vec3 =
  vx :: real
  vy :: real
  vz :: real

definition Vector3 :: "real \<Rightarrow> real \<Rightarrow> real \<Rightarrow> vec3" where
  "Vector3 x y z = \<lparr>vx = x, vy = y, vz = z\<rparr>"

definition vlength :: "vec3 \<Rightarrow> real" where
  "vlength v = sqrt (vx v * vx v + vy v * vy v + vz v * vz v)"

definition multiplyScalar :: "vec3 \<Rightarrow> real \<Rightarrow> vec3" where
  "multiplyScalar v s = Vector3 (vx v * s) (vy v * s) (vz v * s)"

definition divideScalar :: "vec3 \<Rightarrow> real \<Rightarrow> vec3" where
  "divideScalar v s = multiplyScalar v (1 / s)"

text \<open>\<^verbatim>\<open>normalize() { return this.divideScalar( this.length() || 1 ); }\<close>: the zero
  vector stays the zero vector.\<close>

definition normalize :: "vec3 \<Rightarrow> vec3" where
  "normalize v = divideScalar v (if vlength v = 0 then 1 else vlength v)"

definition dot :: "vec3 \<Rightarrow> vec3 \<Rightarrow> real" where
  "dot a b = vx a * vx b + vy a * vy b + vz a * vz b"

definition vadd :: "vec3 \<Rightarrow> vec3 \<Rightarrow> vec3" where
  "vadd a b = Vector3 (vx a + vx b) (vy a + vy b) (vz a + vz b)"

definition vsub :: "vec3 \<Rightarrow> vec3 \<Rightarrow> vec3" where
  "vsub a b = Vector3 (vx a - vx b) (vy a - vy b) (vz a - vz b)"

definition addScaledVector :: "vec3 \<Rightarrow> vec3 \<Rightarrow> real \<Rightarrow> vec3" where
  "addScaledVector a v s = Vector3 (vx a + vx v * s) (vy a + vy v * s) (vz a + vz v * s)"

record quaternion =
  qx :: real
  qy :: real
  qz :: real
  qw :: real

text \<open>\<^verbatim>\<open>Vector3.applyQuaternion\<close>: \<open>t = 2 (q \<times> v)\<close>, result \<open>v + w t + q \<times> t\<close>,
  which rotates \<open>v\<close> when \<open>q\<close> has length one, as the quaternion of an object of the
  engine has.\<close>

definition applyQuaternion :: "vec3 \<Rightarrow> quaternion \<Rightarrow> vec3" where
  "applyQuaternion v q =
     (let tx = 2 * (qy q * vz v - qz q * vy v);
          ty = 2 * (qz q * vx v - qx q * vz v);
          tz = 2 * (qx q * vy v - qy q * vx v)
      in Vector3 (vx v + qw q * tx + qy q * tz - qz q * ty)
                 (vy v + qw q * ty + qz q * tx - qx q * tz)
                 (vz v + qw q * tz + qx q * ty - qy q * tx))"

text \<open>Of the camera the coordinate functions read the orientation only.\<close>

record camera =
  cam_quaternion :: quaternion

definition getCameraForward :: "camera \<Rightarrow> vec3" where
  "getCameraForward cam = normalize (applyQuaternion (Vector3 0 0 (-1)) (cam_quaternion cam))"

definition getCameraRight :: "camera \<Rightarrow> vec3" where
  "getCameraRight cam = normalize (applyQuaternion (Vector3 1 0 0) (cam_quaternion cam))"

text \<open>The camera as \<^verbatim>\<open>CameraController._createCamera\<close> leaves it: never rotated, so its
  quaternion is the identity.\<close>

definition defaultCamera :: camera where
  "defaultCamera = \<lparr>cam_quaternion = \<lparr>qx = 0, qy = 0, qz = 0, qw = 1\<rparr>\<rparr>"

section \<open>The coordinate system\<close>

text \<open>A direction argument is a number, a string, or missing (\<^verbatim>\<open>undefined\<close> or
  \<^verbatim>\<open>null\<close>).\<close>

datatype direction = DNum real | DStr string | DUndefined

datatype js_error = TypeError | InvalidAzimuth

definition directionToAzimuth :: "(string \<times> real) list" where
  "directionToAzimuth =
     [(''north'', 0), (''east'', 90), (''south'', 180), (''west'', 270),
      (''northeast'', 45), (''northwest'', 315), (''southeast'', 135), (''southwest'', 225),
      (''n'', 0), (''e'', 90), (''s'', 180), (''w'', 270),
      (''ne'', 45), (''nw'', 315), (''se'', 135), (''sw'', 225),
      (''nne'', 22.5), (''ene'', 67.5), (''ese'', 112.5), (''sse'', 157.5),
      (''ssw'', 202.5), (''wsw'', 247.5), (''wnw'', 292.5), (''nnw'', 337.5)]"

text \<open>Strings are ASCII here: \<^verbatim>\<open>toLowerCase\<close> maps A..Z, white space is the ASCII
  white space.\<close>

definition toLowerChar :: "char \<Rightarrow> char" where
  "toLowerChar c =
     (case map_of (zip ''ABCDEFGHIJKLMNOPQRSTUVWXYZ'' ''abcdefghijklmnopqrstuvwxyz'') c of
        Some lower \<Rightarrow> lower
      | None \<Rightarrow> c)"

definition isSpace :: "char \<Rightarrow> bool" where
  "isSpace c = (c \<in> {CHR '' '', CHR 0x09, CHR 0x0A, CHR 0x0B, CHR 0x0C, CHR 0x0D})"

definition trim :: "string \<Rightarrow> string" where
  "trim s = rev (dropWhile isSpace (rev (dropWhile isSpace s)))"

definition normalizeDirectionName :: "string \<Rightarrow> string option" where
  "normalizeDirectionName direction =
     (if direction = [] then None
      else Some (filter (\<lambda>c. \<not> (isSpace c \<or> c = CHR ''-'' \<or> c = CHR ''.''))
                   (trim (map toLowerChar direction))))"

definition directionToAzimuthAngle :: "direction \<Rightarrow> real option" where
  "directionToAzimuthAngle direction =
     (case direction of
        DNum d \<Rightarrow> (let azimuth = js_rem d 360
                   in Some (if azimuth < 0 then azimuth + 360 else azimuth))
      | DStr s \<Rightarrow>
          (case normalizeDirectionName s of
             None \<Rightarrow> None
           | Some normalized \<Rightarrow>
               if normalized \<noteq> [] then map_of directionToAzimuth normalized else None)
      | DUndefined \<Rightarrow> None)"

definition worldUp :: vec3 where
  "worldUp = Vector3 0 1 0"

definition sphericalToCartesian ::
  "direction \<Rightarrow> real \<Rightarrow> real \<Rightarrow> camera \<Rightarrow> js_error + vec3" where
  "sphericalToCartesian azimuth elevation distance cam =
     (case directionToAzimuthAngle azimuth of
        None \<Rightarrow> Inl InvalidAzimuth
      | Some azimuthAngle \<Rightarrow>
          (let azimuthRad = degToRad azimuthAngle;
               elevationRad = degToRad elevation;
               forward = getCameraForward cam;
               right = getCameraRight cam;
               horizontalDir =
                 addScaledVector (addScaledVector (Vector3 0 0 0) forward (cos azimuthRad))
                   right (sin azimuthRad);
               verticalComponent = dot horizontalDir worldUp;
               projected = vsub horizontalDir (multiplyScalar worldUp verticalComponent);
               horizontalPlaneDir =
                 (if vlength projected > 0.0001 then normalize projected
                  else
                    (let forwardHorizontal =
                           vsub forward (multiplyScalar worldUp (dot forward worldUp))
                     in if vlength forwardHorizontal > 0.0001 then normalize forwardHorizontal
                        else normalize
                               (vsub right (multiplyScalar worldUp (dot right worldUp)))));
               direction =
                 normalize
                   (addScaledVector
                      (addScaledVector (Vector3 0 0 0) horizontalPlaneDir (cos elevationRad))
                      worldUp (sin elevationRad))
           in Inr (multiplyScalar direction distance)))"

record spherical =
  azimuth :: real
  elevation :: real
  distance :: real

definition cartesianToSpherical :: "real \<Rightarrow> real \<Rightarrow> real \<Rightarrow> camera \<Rightarrow> spherical" where
  "cartesianToSpherical x y z cam =
     (let position = Vector3 x y z;
          distance = vlength position
      in if distance < 0.0001 then \<lparr>azimuth = 0, elevation = 0, distance = 0\<rparr>
         else
           (let direction = normalize position;
                forward = getCameraForward cam;
                right = getCameraRight cam;
                elevation = radToDeg (arcsin (max (-1) (min 1 (dot direction worldUp))));
                verticalComponent = dot direction worldUp;
                horizontalDir = vsub direction (multiplyScalar worldUp verticalComponent);
                horizontalLength = vlength horizontalDir
            in if horizontalLength > 0.0001 then
                 (let horizontalDir' = normalize horizontalDir;
                      forwardComponent = dot horizontalDir' forward;
                      rightComponent = dot horizontalDir' right;
                      azimuthRad = Math_atan2 rightComponent forwardComponent;
                      azimuth = radToDeg azimuthRad
                  in \<lparr>azimuth = (if azimuth < 0 then azimuth + 360 else azimuth),
                      elevation = elevation, distance = distance\<rparr>)
               else \<lparr>azimuth = 0, elevation = elevation, distance = distance\<rparr>))"

text \<open>The composition the round-trip property is about.\<close>

definition roundTrip :: "direction \<Rightarrow> real \<Rightarrow> real \<Rightarrow> camera \<Rightarrow> js_error + spherical" where
  "roundTrip a e d cam =
     (case sphericalToCartesian a e d cam of
        Inl err \<Rightarrow> Inl err
      | Inr p \<Rightarrow> Inr (cartesianToSpherical (vx p) (vy p) (vz p) cam))"

section \<open>Area lights\<close>

text \<open>\<^verbatim>\<open>this.type\<close>: \<^verbatim>\<open>'key'\<close> selects the key light configuration, anything else the
  fill light configuration.\<close>

datatype light_type = Key | Fill

record light_config =
  POSITION :: vec3
  TARGET :: vec3

definition MODEL_ORIGIN :: vec3 where
  "MODEL_ORIGIN = Vector3 0 (- 0.5) 0"

definition KEY_LIGHT :: light_config where
  "KEY_LIGHT = \<lparr>POSITION = Vector3 5 3 5, TARGET = Vector3 0 0 0\<rparr>"

definition FILL_LIGHT :: light_config where
  "FILL_LIGHT = \<lparr>POSITION = Vector3 (- 5) 2 5, TARGET = Vector3 0 0 0\<rparr>"

definition lightConfig :: "light_type \<Rightarrow> light_config" where
  "lightConfig ty = (if ty = Key then KEY_LIGHT else FILL_LIGHT)"

text \<open>The \<^verbatim>\<open>RectAreaLight\<close>: its position relative to the parent group and its
  orientation. The parent group sits at the model origin and carries the Euler rotation
  that \<^verbatim>\<open>rotate\<close> changes.\<close>

record 'o rect_area_light =
  position :: vec3
  orientation :: 'o

record object3d =
  group_position :: vec3
  rotation_x :: real
  rotation_y :: real

text \<open>\<^verbatim>\<open>Object3D.lookAt\<close> belongs to the rendering engine. It is a parameter of the
  model: from the parent group, the light's position in it and the target point it
  computes the orientation that it stores in the light.\<close>

type_synonym 'o look_at = "object3d option \<Rightarrow> vec3 \<Rightarrow> vec3 \<Rightarrow> 'o"

text \<open>The meshes a ray can hit, by identity: the invisible picker mesh of the key light,
  that of the fill light, and any other object. Of the highlight overlay only
  \<^verbatim>\<open>visible\<close> is kept.\<close>

datatype scene_object = KeyPicker | FillPicker | OtherObject

record 'o area_light =
  areaLight :: "'o rect_area_light option"
  parentGroup :: "object3d option"
  highlightOverlay :: "bool option"
  pickerGeometry :: "scene_object option"
  lightType :: light_type

text \<open>The three lines every mutation ends with: read the target of the light's
  configuration and call \<^verbatim>\<open>this.areaLight.lookAt\<close>.\<close>

definition lookAtTarget :: "'o look_at \<Rightarrow> 'o area_light \<Rightarrow> 'o rect_area_light \<Rightarrow> 'o rect_area_light" where
  "lookAtTarget L l al =
     al\<lparr>orientation := L (parentGroup l) (position al) (TARGET (lightConfig (lightType l)))\<rparr>"

text \<open>The constructor: \<^verbatim>\<open>_createAreaLight\<close> and \<^verbatim>\<open>_configureAreaLight\<close>. The
  orientation of a fresh \<^verbatim>\<open>RectAreaLight\<close> is overwritten before it is read.\<close>

definition AreaLight_new :: "'o look_at \<Rightarrow> light_type \<Rightarrow> 'o area_light" where
  "AreaLight_new L ty =
     (let origin = MODEL_ORIGIN;
          group = \<lparr>group_position = origin, rotation_x = 0, rotation_y = 0\<rparr>;
          worldPosition = POSITION (lightConfig ty);
          relativePosition = Vector3 (vx worldPosition - vx origin) (vy worldPosition - vy origin)
                               (vz worldPosition - vz origin);
          target = TARGET (lightConfig ty)
      in \<lparr>areaLight =
            Some \<lparr>position = relativePosition,
                  orientation = L (Some group) relativePosition target\<rparr>,
          parentGroup = Some group, highlightOverlay = None, pickerGeometry = None,
          lightType = ty\<rparr>)"

definition createHighlightOverlay :: "'o area_light \<Rightarrow> 'o area_light" where
  "createHighlightOverlay l =
     l\<lparr>highlightOverlay := Some False,
       pickerGeometry := Some (if lightType l = Key then KeyPicker else FillPicker)\<rparr>"

definition setHighlighted :: "bool \<Rightarrow> 'o area_light \<Rightarrow> 'o area_light" where
  "setHighlighted highlighted l =
     (case highlightOverlay l of
        None \<Rightarrow> l
      | Some _ \<Rightarrow> l\<lparr>highlightOverlay := Some highlighted\<rparr>)"

definition rotate :: "'o look_at \<Rightarrow> real \<Rightarrow> real \<Rightarrow> 'o area_light \<Rightarrow> js_error + 'o area_light" where
  "rotate L deltaX deltaY l =
     (case parentGroup l of
        None \<Rightarrow> Inr l
      | Some g \<Rightarrow>
          (let g' = g\<lparr>rotation_y := rotation_y g + deltaX, rotation_x := rotation_x g + deltaY\<rparr>;
               l' = l\<lparr>parentGroup := Some g'\<rparr>
           in case areaLight l' of
                None \<Rightarrow> Inl TypeError
              | Some al \<Rightarrow> Inr (l'\<lparr>areaLight := Some (lookAtTarget L l' al)\<rparr>)))"

definition dolly :: "'o look_at \<Rightarrow> real \<Rightarrow> 'o area_light \<Rightarrow> 'o area_light" where
  "dolly L delta l =
     (case areaLight l of
        None \<Rightarrow> l
      | Some al \<Rightarrow>
          (case parentGroup l of
             None \<Rightarrow> l
           | Some g \<Rightarrow>
               (let currentPosition = position al;
                    currentDistance = vlength currentPosition;
                    direction = (if currentDistance > 0.0001 then normalize currentPosition
                                 else Vector3 0 0 1);
                    movement = multiplyScalar direction delta;
                    newPosition = vadd currentPosition movement
                in l\<lparr>areaLight := Some (lookAtTarget L l (al\<lparr>position := newPosition\<rparr>))\<rparr>)))"

text \<open>The camera argument is \<open>None\<close> when the caller has no camera.\<close>

definition setPositionSpherical ::
  "'o look_at \<Rightarrow> direction \<Rightarrow> real \<Rightarrow> camera option \<Rightarrow> 'o area_light \<Rightarrow> js_error + 'o area_light" where
  "setPositionSpherical L azimuthArg elevationArg cam l =
     (case areaLight l of
        None \<Rightarrow> Inr l
      | Some al \<Rightarrow>
          (case parentGroup l of
             None \<Rightarrow> Inr l
           | Some g \<Rightarrow>
               (case cam of
                  None \<Rightarrow> Inr l
                | Some c \<Rightarrow>
                    (let currentPosition = position al;
                         currentDistance = vlength currentPosition;
                         distance = (if currentDistance > 0.0001 then currentDistance else 1.0)
                     in case sphericalToCartesian azimuthArg elevationArg distance c of
                          Inl err \<Rightarrow> Inl err
                        | Inr cartesian \<Rightarrow>
                            Inr (l\<lparr>areaLight :=
                                     Some (lookAtTarget L l
                                       (al\<lparr>position :=
                                            Vector3 (vx cartesian) (vy cartesian)
                                              (vz cartesian)\<rparr>))\<rparr>)))))"

definition getPositionSpherical :: "camera option \<Rightarrow> 'o area_light \<Rightarrow> spherical" where
  "getPositionSpherical cam l =
     (case areaLight l of
        None \<Rightarrow> \<lparr>azimuth = 0, elevation = 0, distance = 0\<rparr>
      | Some al \<Rightarrow>
          (case parentGroup l of
             None \<Rightarrow> \<lparr>azimuth = 0, elevation = 0, distance = 0\<rparr>
           | Some g \<Rightarrow>
               (case cam of
                  None \<Rightarrow> \<lparr>azimuth = 0, elevation = 0, distance = 0\<rparr>
                | Some c \<Rightarrow>
                    (let relativePosition = position al
                     in cartesianToSpherical (vx relativePosition) (vy relativePosition)
                          (vz relativePosition) c))))"

text \<open>The guard the relative adjustments start with.\<close>

definition lightReady :: "camera option \<Rightarrow> 'o area_light \<Rightarrow> bool" where
  "lightReady cam l = (areaLight l \<noteq> None \<and> parentGroup l \<noteq> None \<and> cam \<noteq> None)"

text \<open>A parameter with a default value: \<open>None\<close> is an argument left out.\<close>

definition orDefault :: "real \<Rightarrow> real option \<Rightarrow> real" where
  "orDefault dflt v = (case v of None \<Rightarrow> dflt | Some x \<Rightarrow> x)"

definition rotateClockwise ::
  "'o look_at \<Rightarrow> real option \<Rightarrow> camera option \<Rightarrow> 'o area_light \<Rightarrow> js_error + 'o area_light" where
  "rotateClockwise L degrees cam l =
     (if \<not> lightReady cam l then Inr l
      else
        (let current = getPositionSpherical cam l;
             newAzimuth = js_rem (azimuth current - orDefault 10 degrees + 360) 360
         in setPositionSpherical L (DNum newAzimuth) (elevation current) cam l))"

definition rotateCounterclockwise ::
  "'o look_at \<Rightarrow> real option \<Rightarrow> camera option \<Rightarrow> 'o area_light \<Rightarrow> js_error + 'o area_light" where
  "rotateCounterclockwise L degrees cam l =
     (if \<not> lightReady cam l then Inr l
      else
        (let current = getPositionSpherical cam l;
             newAzimuth = js_rem (azimuth current + orDefault 10 degrees) 360
         in setPositionSpherical L (DNum newAzimuth) (elevation current) cam l))"

definition nudgeElevationUp ::
  "'o look_at \<Rightarrow> real option \<Rightarrow> camera option \<Rightarrow> 'o area_light \<Rightarrow> js_error + 'o area_light" where
  "nudgeElevationUp L degrees cam l =
     (if \<not> lightReady cam l then Inr l
      else
        (let current = getPositionSpherical cam l;
             newElevation = min 90 (elevation current + orDefault 5 degrees)
         in setPositionSpherical L (DNum (azimuth current)) newElevation cam l))"

definition nudgeElevationDown ::
  "'o look_at \<Rightarrow> real option \<Rightarrow> camera option \<Rightarrow> 'o area_light \<Rightarrow> js_error + 'o area_light" where
  "nudgeElevationDown L degrees cam l =
     (if \<not> lightReady cam l then Inr l
      else
        (let current = getPositionSpherical cam l;
             newElevation = max 0 (elevation current - orDefault 5 degrees)
         in setPositionSpherical L (DNum (azimuth current)) newElevation cam l))"

text \<open>Lines 396 to 402 of \<^verbatim>\<open>moveTowardDirection\<close>: the wrapped difference and the new
  azimuth.\<close>

definition wrappedDiff :: "real \<Rightarrow> real \<Rightarrow> real" where
  "wrappedDiff targetAzimuthNum currentAzimuth =
     (let diff = targetAzimuthNum - currentAzimuth;
          diff = (if diff > 180 then diff - 360 else diff);
          diff = (if diff < - 180 then diff + 360 else diff)
      in diff)"

definition movedAzimuth :: "real \<Rightarrow> real \<Rightarrow> real \<Rightarrow> real" where
  "movedAzimuth targetAzimuthNum degrees currentAzimuth =
     (let diff = wrappedDiff targetAzimuthNum currentAzimuth;
          moveAmount = sgn diff * min \<bar>diff\<bar> degrees
      in js_rem (currentAzimuth + moveAmount + 360) 360)"

text \<open>\<^verbatim>\<open>parseFloat\<close> is a built-in of the language and a parameter here: \<open>None\<close> is
  NaN.\<close>

definition moveTowardDirection ::
  "'o look_at \<Rightarrow> (string \<Rightarrow> real option) \<Rightarrow> direction \<Rightarrow> real option \<Rightarrow> camera option
     \<Rightarrow> 'o area_light \<Rightarrow> js_error + 'o area_light" where
  "moveTowardDirection L parseFloat targetDirection degrees cam l =
     (if \<not> lightReady cam l then Inr l
      else
        (let targetAzimuth = directionToAzimuthAngle targetDirection;
             targetAzimuthNum =
               (case targetAzimuth of
                  None \<Rightarrow>
                    (case targetDirection of
                       DNum n \<Rightarrow> Some n
                     | DStr s \<Rightarrow> parseFloat s
                     | DUndefined \<Rightarrow> None)
                | Some t \<Rightarrow> Some t)
         in case targetAzimuthNum of
              None \<Rightarrow> Inr l
            | Some t \<Rightarrow>
                (let current = getPositionSpherical cam l;
                     newAzimuth = movedAzimuth t (orDefault 10 degrees) (azimuth current)
                 in setPositionSpherical L (DNum newAzimuth) (elevation current) cam l)))"

definition setDistance ::
  "'o look_at \<Rightarrow> real \<Rightarrow> camera option \<Rightarrow> 'o area_light \<Rightarrow> js_error + 'o area_light" where
  "setDistance L distanceArg cam l =
     (case areaLight l of
        None \<Rightarrow> Inr l
      | Some al \<Rightarrow>
          (case parentGroup l of
             None \<Rightarrow> Inr l
           | Some g \<Rightarrow>
               (case cam of
                  None \<Rightarrow> Inr l
                | Some c \<Rightarrow>
                    (let current = getPositionSpherical cam l
                     in case sphericalToCartesian (DNum (azimuth current)) (elevation current)
                               distanceArg c of
                          Inl err \<Rightarrow> Inl err
                        | Inr cartesian \<Rightarrow>
                            Inr (l\<lparr>areaLight :=
                                     Some (lookAtTarget L l
                                       (al\<lparr>position :=
                                            Vector3 (vx cartesian) (vy cartesian)
                                              (vz cartesian)\<rparr>))\<rparr>)))))"

definition setPositionCartesian ::
  "'o look_at \<Rightarrow> real \<Rightarrow> real \<Rightarrow> real \<Rightarrow> 'o area_light \<Rightarrow> 'o area_light" where
  "setPositionCartesian L x y z l =
     (case areaLight l of
        None \<Rightarrow> l
      | Some al \<Rightarrow> l\<lparr>areaLight := Some (lookAtTarget L l (al\<lparr>position := Vector3 x y z\<rparr>))\<rparr>)"

section \<open>The camera controller\<close>

text \<open>Of the controller's camera the methods below write \<^verbatim>\<open>position.z\<close> and
  \<^verbatim>\<open>zoom\<close>; the other fields are the configuration read in the constructor and the
  pinch state. The values are those of \<^verbatim>\<open>CONFIG.CAMERA\<close> and
  \<^verbatim>\<open>CONFIG.INTERACTION\<close>; a new \<^verbatim>\<open>PerspectiveCamera\<close> has zoom 1. The distance
  and the zoom are what the clamps return, which may be NaN, and the pinch state copies the
  distance.\<close>

record camera_controller =
  camera_position_z :: js_number
  camera_zoom :: js_number
  minDistance :: real
  maxDistance :: real
  minFOV :: real
  maxFOV :: real
  dollySpeed :: real
  fovSpeed :: real
  initialPinchDistance :: real
  initialCameraDistance :: js_number

record touch =
  clientX :: real
  clientY :: real

definition PINCH_ZOOM_SENSITIVITY :: real where
  "PINCH_ZOOM_SENSITIVITY = 0.01"

definition CameraController_new :: camera_controller where
  "CameraController_new =
     \<lparr>camera_position_z = Num 32, camera_zoom = Num 1,
      minDistance = 8, maxDistance = 64, minFOV = 0.5, maxFOV = 5.0,
      dollySpeed = 0.1, fovSpeed = 0.02,
      initialPinchDistance = 0, initialCameraDistance = Num 32\<rparr>"

definition clampDistance :: "camera_controller \<Rightarrow> js_number \<Rightarrow> js_number" where
  "clampDistance c v = Math_max (Num (minDistance c)) (Math_min (Num (maxDistance c)) v)"

definition clampFOV :: "camera_controller \<Rightarrow> js_number \<Rightarrow> js_number" where
  "clampFOV c v = Math_max (Num (minFOV c)) (Math_min (Num (maxFOV c)) v)"

definition applyFOVChange :: "js_number \<Rightarrow> camera_controller \<Rightarrow> camera_controller" where
  "applyFOVChange fovDelta c =
     (let newFOV = js_add (camera_zoom c) fovDelta in c\<lparr>camera_zoom := clampFOV c newFOV\<rparr>)"

definition applyDolly :: "js_number \<Rightarrow> camera_controller \<Rightarrow> camera_controller" where
  "applyDolly dollyDelta c =
     (let newDistance = js_add (camera_position_z c) dollyDelta
      in c\<lparr>camera_position_z := clampDistance c newDistance\<rparr>)"

text \<open>The wheel and the touches come from the browser's events, whose coordinates are
  numbers.\<close>

definition handleWheel :: "real \<Rightarrow> bool \<Rightarrow> camera_controller \<Rightarrow> camera_controller" where
  "handleWheel deltaY isShiftPressed c =
     (if isShiftPressed
      then applyFOVChange (Num (if deltaY > 0 then - fovSpeed c else fovSpeed c)) c
      else applyDolly (Num (if deltaY > 0 then dollySpeed c else - dollySpeed c)) c)"

definition Math_hypot :: "real \<Rightarrow> real \<Rightarrow> real" where
  "Math_hypot a b = sqrt (a * a + b * b)"

definition startPinchZoom :: "touch \<Rightarrow> touch \<Rightarrow> camera_controller \<Rightarrow> camera_controller" where
  "startPinchZoom touch1 touch2 c =
     c\<lparr>initialPinchDistance :=
         Math_hypot (clientX touch2 - clientX touch1) (clientY touch2 - clientY touch1),
       initialCameraDistance := camera_position_z c\<rparr>"

definition updatePinchZoom :: "touch \<Rightarrow> touch \<Rightarrow> camera_controller \<Rightarrow> camera_controller" where
  "updatePinchZoom touch1 touch2 c =
     (let currentPinchDistance =
            Math_hypot (clientX touch2 - clientX touch1) (clientY touch2 - clientY touch1);
          pinchDelta = initialPinchDistance c - currentPinchDistance;
          dollyDelta = pinchDelta * PINCH_ZOOM_SENSITIVITY;
          newDistance = js_add (initialCameraDistance c) (Num dollyDelta)
      in c\<lparr>camera_position_z := clampDistance c newDistance\<rparr>)"

text \<open>\<^verbatim>\<open>dollyCamera(distance)\<close> and \<^verbatim>\<open>setCameraFOV(fov)\<close> hand their argument to the
  clamp as it is.\<close>

definition dollyCamera :: "js_arg \<Rightarrow> camera_controller \<Rightarrow> camera_controller" where
  "dollyCamera distanceArg c = c\<lparr>camera_position_z := clampDistance c (toNumber distanceArg)\<rparr>"

text \<open>The four relative controls have the parameter \<^verbatim>\<open>amount = null\<close> and test
  \<^verbatim>\<open>amount !== null\<close>; an amount that passes the test is a number here.\<close>

definition dollyCameraIn :: "js_arg \<Rightarrow> camera_controller \<Rightarrow> camera_controller" where
  "dollyCameraIn amountArg c =
     (let amount = defaultNull amountArg;
          delta = (if amount \<noteq> Null then js_negate (toNumber amount) else Num (- dollySpeed c))
      in applyDolly delta c)"

definition dollyCameraOut :: "js_arg \<Rightarrow> camera_controller \<Rightarrow> camera_controller" where
  "dollyCameraOut amountArg c =
     (let amount = defaultNull amountArg;
          delta = (if amount \<noteq> Null then toNumber amount else Num (dollySpeed c))
      in applyDolly delta c)"

definition setCameraFOV :: "js_arg \<Rightarrow> camera_controller \<Rightarrow> camera_controller" where
  "setCameraFOV fov c = c\<lparr>camera_zoom := clampFOV c (toNumber fov)\<rparr>"

definition increaseCameraFOV :: "js_arg \<Rightarrow> camera_controller \<Rightarrow> camera_controller" where
  "increaseCameraFOV amountArg c =
     (let amount = defaultNull amountArg;
          delta = (if amount \<noteq> Null then toNumber amount else Num (fovSpeed c))
      in applyFOVChange delta c)"

definition decreaseCameraFOV :: "js_arg \<Rightarrow> camera_controller \<Rightarrow> camera_controller" where
  "decreaseCameraFOV amountArg c =
     (let amount = defaultNull amountArg;
          delta = (if amount \<noteq> Null then js_negate (toNumber amount) else Num (- fovSpeed c))
      in applyFOVChange delta c)"

definition getCameraDistance :: "camera_controller \<Rightarrow> js_number" where
  "getCameraDistance c = camera_position_z c"

definition getCameraFOV :: "camera_controller \<Rightarrow> js_number" where
  "getCameraFOV c = camera_zoom c"

text \<open>The camera operations as events, to run them in any order.\<close>

datatype camera_op =
    HandleWheel real bool
  | StartPinchZoom touch touch
  | UpdatePinchZoom touch touch
  | DollyCamera js_arg
  | DollyCameraIn js_arg
  | DollyCameraOut js_arg
  | SetCameraFOV js_arg
  | IncreaseCameraFOV js_arg
  | DecreaseCameraFOV js_arg

fun cameraStep :: "camera_controller \<Rightarrow> camera_op \<Rightarrow> camera_controller" where
  "cameraStep c (HandleWheel deltaY shift) = handleWheel deltaY shift c"
| "cameraStep c (StartPinchZoom t1 t2) = startPinchZoom t1 t2 c"
| "cameraStep c (UpdatePinchZoom t1 t2) = updatePinchZoom t1 t2 c"
| "cameraStep c (DollyCamera d) = dollyCamera d c"
| "cameraStep c (DollyCameraIn a) = dollyCameraIn a c"
| "cameraStep c (DollyCameraOut a) = dollyCameraOut a c"
| "cameraStep c (SetCameraFOV f) = setCameraFOV f c"
| "cameraStep c (IncreaseCameraFOV a) = increaseCameraFOV a c"
| "cameraStep c (DecreaseCameraFOV a) = decreaseCameraFOV a c"

definition cameraRun :: "camera_op list \<Rightarrow> camera_controller" where
  "cameraRun ops = foldl cameraStep CameraController_new ops"

text \<open>A value within a range; NaN is within none.\<close>

fun withinRange :: "real \<Rightarrow> real \<Rightarrow> js_number \<Rightarrow> bool" where
  "withinRange lo hi (Num x) = (lo \<le> x \<and> x \<le> hi)"
| "withinRange lo hi NaN = False"

definition cameraInRange :: "camera_controller \<Rightarrow> bool" where
  "cameraInRange c =
     (withinRange 8 64 (camera_position_z c) \<and> withinRange 0.5 5 (camera_zoom c))"

text \<open>An operation whose absolute argument is present: \<^verbatim>\<open>dollyCamera\<close> and
  \<^verbatim>\<open>setCameraFOV\<close> are given a distance and a zoom other than \<^verbatim>\<open>undefined\<close>. The
  other operations are unrestricted.\<close>

fun argumentGiven :: "camera_op \<Rightarrow> bool" where
  "argumentGiven (DollyCamera d) = (d \<noteq> Undefined)"
| "argumentGiven (SetCameraFOV f) = (f \<noteq> Undefined)"
| "argumentGiven _ = True"

section \<open>The scene manager\<close>

text \<open>The references a control method tests or follows: the camera given to the
  constructor, the camera controller set later by \<^verbatim>\<open>setCameraController\<close>, the model
  and the two lights created by \<^verbatim>\<open>initialize\<close>. Following a reference that is not set
  raises a TypeError.\<close>

record model_mesh =
  mesh_scale :: vec3

record 'o scene_manager =
  sm_camera :: "camera option"
  sm_cameraController :: "camera_controller option"
  sm_model :: "model_mesh option"
  sm_keyLight :: "'o area_light option"
  sm_fillLight :: "'o area_light option"

definition SceneManager_new :: "camera option \<Rightarrow> 'o scene_manager" where
  "SceneManager_new cam =
     \<lparr>sm_camera = cam, sm_cameraController = None, sm_model = None,
      sm_keyLight = None, sm_fillLight = None\<rparr>"

definition setCameraController :: "camera_controller \<Rightarrow> 'o scene_manager \<Rightarrow> 'o scene_manager" where
  "setCameraController cc sm = sm\<lparr>sm_cameraController := Some cc\<rparr>"

text \<open>\<^verbatim>\<open>if (this.camera) { this.cameraController.m(...) }\<close>, for each of the six
  camera controls \<open>m\<close>.\<close>

definition withCameraController ::
  "(camera_controller \<Rightarrow> camera_controller) \<Rightarrow> 'o scene_manager \<Rightarrow> js_error + 'o scene_manager" where
  "withCameraController m sm =
     (case sm_camera sm of
        None \<Rightarrow> Inr sm
      | Some _ \<Rightarrow>
          (case sm_cameraController sm of
             None \<Rightarrow> Inl TypeError
           | Some cc \<Rightarrow> Inr (sm\<lparr>sm_cameraController := Some (m cc)\<rparr>)))"

definition SceneManager_dollyCamera :: "js_arg \<Rightarrow> 'o scene_manager \<Rightarrow> js_error + 'o scene_manager" where
  "SceneManager_dollyCamera d sm = withCameraController (dollyCamera d) sm"

definition SceneManager_dollyCameraIn ::
  "js_arg \<Rightarrow> 'o scene_manager \<Rightarrow> js_error + 'o scene_manager" where
  "SceneManager_dollyCameraIn amount sm = withCameraController (dollyCameraIn amount) sm"

definition SceneManager_dollyCameraOut ::
  "js_arg \<Rightarrow> 'o scene_manager \<Rightarrow> js_error + 'o scene_manager" where
  "SceneManager_dollyCameraOut amount sm = withCameraController (dollyCameraOut amount) sm"

definition SceneManager_setCameraFOV :: "js_arg \<Rightarrow> 'o scene_manager \<Rightarrow> js_error + 'o scene_manager" where
  "SceneManager_setCameraFOV fov sm = withCameraController (setCameraFOV fov) sm"

definition SceneManager_increaseCameraFOV ::
  "js_arg \<Rightarrow> 'o scene_manager \<Rightarrow> js_error + 'o scene_manager" where
  "SceneManager_increaseCameraFOV amount sm = withCameraController (increaseCameraFOV amount) sm"

definition SceneManager_decreaseCameraFOV ::
  "js_arg \<Rightarrow> 'o scene_manager \<Rightarrow> js_error + 'o scene_manager" where
  "SceneManager_decreaseCameraFOV amount sm = withCameraController (decreaseCameraFOV amount) sm"

definition SceneManager_getCameraDistance :: "'o scene_manager \<Rightarrow> js_error + js_number" where
  "SceneManager_getCameraDistance sm =
     (case sm_camera sm of
        None \<Rightarrow> Inr (Num 0)
      | Some _ \<Rightarrow>
          (case sm_cameraController sm of
             None \<Rightarrow> Inl TypeError
           | Some cc \<Rightarrow> Inr (getCameraDistance cc)))"

definition SceneManager_getCameraFOV :: "'o scene_manager \<Rightarrow> js_error + js_number" where
  "SceneManager_getCameraFOV sm =
     (case sm_camera sm of
        None \<Rightarrow> Inr (Num 0)
      | Some _ \<Rightarrow>
          (case sm_cameraController sm of
             None \<Rightarrow> Inl TypeError
           | Some cc \<Rightarrow> Inr (getCameraFOV cc)))"

definition getModelScale :: "'o scene_manager \<Rightarrow> vec3" where
  "getModelScale sm =
     (case sm_model sm of
        None \<Rightarrow> Vector3 1 1 1
      | Some m \<Rightarrow> Vector3 (vx (mesh_scale m)) (vy (mesh_scale m)) (vz (mesh_scale m)))"

definition changeModelSize :: "real \<Rightarrow> 'o scene_manager \<Rightarrow> js_error + 'o scene_manager" where
  "changeModelSize sizeArg sm =
     (case sm_model sm of
        None \<Rightarrow> Inl TypeError
      | Some m \<Rightarrow> Inr (sm\<lparr>sm_model := Some (m\<lparr>mesh_scale := Vector3 sizeArg sizeArg sizeArg\<rparr>)\<rparr>))"

definition setKeyLightPositionSpherical ::
  "'o look_at \<Rightarrow> direction \<Rightarrow> real \<Rightarrow> 'o scene_manager \<Rightarrow> js_error + 'o scene_manager" where
  "setKeyLightPositionSpherical L azimuthArg elevationArg sm =
     (case sm_keyLight sm of
        None \<Rightarrow> Inr sm
      | Some kl \<Rightarrow>
          (case sm_camera sm of
             None \<Rightarrow> Inr sm
           | Some c \<Rightarrow>
               (case setPositionSpherical L azimuthArg elevationArg (Some c) kl of
                  Inl err \<Rightarrow> Inl err
                | Inr kl' \<Rightarrow> Inr (sm\<lparr>sm_keyLight := Some kl'\<rparr>))))"

definition getKeyLightPositionSpherical :: "'o scene_manager \<Rightarrow> spherical" where
  "getKeyLightPositionSpherical sm =
     (case sm_keyLight sm of
        None \<Rightarrow> \<lparr>azimuth = 0, elevation = 0, distance = 0\<rparr>
      | Some kl \<Rightarrow>
          (case sm_camera sm of
             None \<Rightarrow> \<lparr>azimuth = 0, elevation = 0, distance = 0\<rparr>
           | Some c \<Rightarrow> getPositionSpherical (Some c) kl))"

definition getFillLightPositionSpherical :: "'o scene_manager \<Rightarrow> spherical" where
  "getFillLightPositionSpherical sm =
     (case sm_fillLight sm of
        None \<Rightarrow> \<lparr>azimuth = 0, elevation = 0, distance = 0\<rparr>
      | Some fl \<Rightarrow>
          (case sm_camera sm of
             None \<Rightarrow> \<lparr>azimuth = 0, elevation = 0, distance = 0\<rparr>
           | Some c \<Rightarrow> getPositionSpherical (Some c) fl))"

text \<open>\<^verbatim>\<open>initialize\<close>, once the model has loaded: the mesh at scale
  \<^verbatim>\<open>CONFIG.MODEL.SIZE\<close> and the two lights with their overlays.\<close>

definition SceneManager_initialize :: "'o look_at \<Rightarrow> 'o scene_manager \<Rightarrow> 'o scene_manager" where
  "SceneManager_initialize L sm =
     sm\<lparr>sm_model := Some \<lparr>mesh_scale = Vector3 1 1 1\<rparr>,
        sm_keyLight := Some (createHighlightOverlay (AreaLight_new L Key)),
        sm_fillLight := Some (createHighlightOverlay (AreaLight_new L Fill))\<rparr>"

text \<open>A reference to one of the two \<^verbatim>\<open>AreaLight\<close> objects of the scene manager.\<close>

datatype light_ref = KeyLightRef | FillLightRef

definition getHoveredAreaLight :: "'o scene_manager \<Rightarrow> scene_object \<Rightarrow> light_ref option" where
  "getHoveredAreaLight sm intersectedObject =
     (if (case sm_keyLight sm of
            None \<Rightarrow> False
          | Some kl \<Rightarrow> pickerGeometry kl = Some intersectedObject)
      then Some KeyLightRef
      else if (case sm_fillLight sm of
                 None \<Rightarrow> False
               | Some fl \<Rightarrow> pickerGeometry fl = Some intersectedObject)
      then Some FillLightRef
      else None)"

section \<open>The application: hover and command dispatch\<close>

datatype interaction_mode = MODEL_ROTATION | AREA_LIGHT_MANIPULATION

datatype console_entry = Warn string string

text \<open>Modelled from the spec: the client of the remote channel (its class,
  \<^verbatim>\<open>WebSocketClient\<close>, is not among the sources). The push of a state snapshot is fire
  and forget, and skipped when the channel is not open: the client is a flag,
  \<^verbatim>\<open>isConnected()\<close>, and the snapshots sent so far.\<close>

record 'snap ws_client =
  isConnected :: bool
  sentStateUpdates :: "'snap list"

record ('o, 'snap) application =
  sceneManager :: "'o scene_manager"
  currentMode :: interaction_mode
  currentHoveredAreaLight :: "light_ref option"
  console :: "console_entry list"
  wsClient :: "'snap ws_client option"

text \<open>\<^verbatim>\<open>init\<close> up to the hover state: the mode manager starts in
  \<^verbatim>\<open>MODEL_ROTATION\<close>, no light is hovered, and \<^verbatim>\<open>_setupWebSocket\<close> has left the
  client \<open>ws\<close> (none without a session id).\<close>

definition Application_init ::
  "'o look_at \<Rightarrow> 'snap ws_client option \<Rightarrow> ('o, 'snap) application" where
  "Application_init L ws =
     \<lparr>sceneManager =
        setCameraController CameraController_new
          (SceneManager_initialize L (SceneManager_new (Some defaultCamera))),
      currentMode = MODEL_ROTATION, currentHoveredAreaLight = None,
      console = [], wsClient = ws\<rparr>"

text \<open>\<^verbatim>\<open>setMode\<close> accepts only the two modes, which the type already ensures.\<close>

definition setMode :: "interaction_mode \<Rightarrow> ('o, 'snap) application \<Rightarrow> ('o, 'snap) application" where
  "setMode m app = app\<lparr>currentMode := m\<rparr>"

text \<open>\<^verbatim>\<open>light.setHighlighted(h)\<close> on the light a reference points to.\<close>

definition highlightLight ::
  "light_ref \<Rightarrow> bool \<Rightarrow> ('o, 'snap) application \<Rightarrow> ('o, 'snap) application" where
  "highlightLight r h app =
     (let sm = sceneManager app
      in case r of
           KeyLightRef \<Rightarrow>
             app\<lparr>sceneManager := sm\<lparr>sm_keyLight := map_option (setHighlighted h) (sm_keyLight sm)\<rparr>\<rparr>
         | FillLightRef \<Rightarrow>
             app\<lparr>sceneManager := sm\<lparr>sm_fillLight := map_option (setHighlighted h) (sm_fillLight sm)\<rparr>\<rparr>)"

text \<open>The argument is the list of intersections the ray picker returns, nearest first,
  each given by the object it hit.\<close>

definition updateAreaLightHover ::
  "scene_object list \<Rightarrow> ('o, 'snap) application \<Rightarrow> ('o, 'snap) application" where
  "updateAreaLightHover intersections app =
     (let hoveredAreaLight =
            (case intersections of
               [] \<Rightarrow> None
             | first # _ \<Rightarrow> getHoveredAreaLight (sceneManager app) first)
      in if hoveredAreaLight \<noteq> currentHoveredAreaLight app then
           (let app1 = (case currentHoveredAreaLight app of
                          None \<Rightarrow> app
                        | Some previous \<Rightarrow> highlightLight previous False app);
                app2 = (case hoveredAreaLight of
                          Some hovered \<Rightarrow>
                            setMode AREA_LIGHT_MANIPULATION (highlightLight hovered True app1)
                        | None \<Rightarrow> setMode MODEL_ROTATION app1)
            in app2\<lparr>currentHoveredAreaLight := hoveredAreaLight\<rparr>)
         else app)"

definition hoverRun ::
  "'o look_at \<Rightarrow> 'snap ws_client option \<Rightarrow> scene_object list list \<Rightarrow> ('o, 'snap) application" where
  "hoverRun L ws steps = foldl (\<lambda>app xs. updateAreaLightHover xs app) (Application_init L ws) steps"

text \<open>Whether the overlay of a light is visible.\<close>

definition isHighlighted :: "light_ref \<Rightarrow> ('o, 'snap) application \<Rightarrow> bool" where
  "isHighlighted r app =
     (case (case r of KeyLightRef \<Rightarrow> sm_keyLight (sceneManager app)
                    | FillLightRef \<Rightarrow> sm_fillLight (sceneManager app)) of
        None \<Rightarrow> False
      | Some l \<Rightarrow> highlightOverlay l = Some True)"

text \<open>The light whose picker the nearest intersection hit, if any.\<close>

definition hitLight :: "scene_object list \<Rightarrow> light_ref option" where
  "hitLight intersections =
     (case intersections of
        KeyPicker # _ \<Rightarrow> Some KeyLightRef
      | FillPicker # _ \<Rightarrow> Some FillLightRef
      | _ \<Rightarrow> None)"

text \<open>A command is an object with a \<^verbatim>\<open>type\<close> field, a string when the sender set it to
  one, and the fields of the command.\<close>

record 'p command =
  cmd_type :: "string option"
  cmd_fields :: 'p

text \<open>The keys of the handler map built by \<^verbatim>\<open>_initCommandHandlers\<close>, in its order.\<close>

definition commandNames :: "string list" where
  "commandNames =
     [''toolCall'', ''changeColor'', ''changeSize'', ''scaleModel'', ''changeBackgroundColor'',
      ''getBackgroundColor'', ''setKeyLightIntensity'', ''setKeyLightColor'',
      ''swingKeyLightUp'', ''swingKeyLightDown'', ''swingKeyLightLeft'', ''swingKeyLightRight'',
      ''walkKeyLightIn'', ''walkKeyLightOut'', ''setKeyLightPositionSpherical'',
      ''getKeyLightPositionSpherical'', ''getKeyLightIntensity'', ''getKeyLightColor'',
      ''getKeyLightSize'', ''setFillLightIntensity'', ''setFillLightColor'',
      ''swingFillLightUp'', ''swingFillLightDown'', ''swingFillLightLeft'',
      ''swingFillLightRight'', ''walkFillLightIn'', ''walkFillLightOut'',
      ''setFillLightPositionSpherical'', ''getFillLightPositionSpherical'',
      ''getFillLightIntensity'', ''getFillLightColor'', ''getFillLightSize'',
      ''dollyCamera'', ''dollyCameraIn'', ''dollyCameraOut'', ''setCameraFOV'',
      ''increaseCameraFOV'', ''decreaseCameraFOV'', ''getCameraDistance'', ''getCameraFOV'',
      ''getModelRotation'', ''getModelColor'', ''getModelScale'', ''setModelRotation'',
      ''rotateModelClockwise'', ''rotateModelCounterclockwise'', ''nudgeModelPitchUp'',
      ''nudgeModelPitchDown'', ''nudgeModelRoll'', ''rotateKeyLightClockwise'',
      ''rotateKeyLightCounterclockwise'', ''nudgeKeyLightElevationUp'',
      ''nudgeKeyLightElevationDown'', ''moveKeyLightTowardDirection'',
      ''rotateFillLightClockwise'', ''rotateFillLightCounterclockwise'',
      ''nudgeFillLightElevationUp'', ''nudgeFillLightElevationDown'',
      ''moveFillLightTowardDirection'', ''setKeyLightDistance'', ''setFillLightDistance'']"

text \<open>A handler is a closure over the application: it takes the command and may change
  anything in the application, or raise. The bodies of the handlers are a parameter
  \<open>bodies\<close>, one for each key; the map has exactly the keys above.\<close>

type_synonym ('o, 'snap, 'p) handler =
  "'p command \<Rightarrow> ('o, 'snap) application \<Rightarrow> js_error + ('o, 'snap) application"

definition commandHandlers ::
  "(string \<Rightarrow> ('o, 'snap, 'p) handler) \<Rightarrow> string \<Rightarrow> ('o, 'snap, 'p) handler option" where
  "commandHandlers bodies = map_of (map (\<lambda>name. (name, bodies name)) commandNames)"

text \<open>\<^verbatim>\<open>getSceneState\<close> builds the snapshot from the getters of the scene manager; it is
  a parameter.\<close>

definition sendStateUpdate ::
  "(('o, 'snap) application \<Rightarrow> 'snap) \<Rightarrow> ('o, 'snap) application \<Rightarrow> ('o, 'snap) application" where
  "sendStateUpdate getSceneState app =
     (case wsClient app of
        None \<Rightarrow> app
      | Some ws \<Rightarrow>
          if isConnected ws then
            app\<lparr>wsClient :=
                  Some (ws\<lparr>sentStateUpdates := sentStateUpdates ws @ [getSceneState app]\<rparr>)\<rparr>
          else app)"

definition handleWebSocketCommand ::
  "(string \<Rightarrow> ('o, 'snap, 'p) handler) \<Rightarrow> (('o, 'snap) application \<Rightarrow> 'snap) \<Rightarrow> 'p command
     \<Rightarrow> ('o, 'snap) application \<Rightarrow> js_error + ('o, 'snap) application" where
  "handleWebSocketCommand bodies getSceneState cmd app =
     (case cmd_type cmd of
        None \<Rightarrow> Inl TypeError
      | Some ty \<Rightarrow>
          (let isGetterCommand = prefix ''get'' ty;
               isToolCallNotification = (ty = ''toolCall'')
           in case commandHandlers bodies ty of
                Some handler \<Rightarrow>
                  (case handler cmd app of
                     Inl err \<Rightarrow> Inl err
                   | Inr app' \<Rightarrow>
                       if \<not> isGetterCommand \<and> \<not> isToolCallNotification
                       then Inr (sendStateUpdate getSceneState app')
                       else Inr app')
              | None \<Rightarrow>
                  Inr (app\<lparr>console := console app @ [Warn ''Unknown command type:'' ty]\<rparr>)))"

section \<open>Predicates and terms of the statements\<close>

text \<open>A camera basis that is level and orthonormal: forward and right lie in the
  horizontal plane, have length one and are orthogonal. A camera rotated about the world
  up axis only has such a basis.\<close>

definition levelBasis :: "vec3 \<Rightarrow> vec3 \<Rightarrow> bool" where
  "levelBasis f r =
     (vy f = 0 \<and> vy r = 0 \<and> dot f f = 1 \<and> dot r r = 1 \<and> dot f r = 0)"

text \<open>The horizontal direction and the direction that \<^const>\<open>sphericalToCartesian\<close>
  computes for a level basis, at azimuth \<open>t\<close> and elevation \<open>p\<close> in radians.\<close>

definition levelHorizontal :: "vec3 \<Rightarrow> vec3 \<Rightarrow> real \<Rightarrow> vec3" where
  "levelHorizontal f r t =
     Vector3 (vx f * cos t + vx r * sin t) 0 (vz f * cos t + vz r * sin t)"

definition levelDirection :: "vec3 \<Rightarrow> vec3 \<Rightarrow> real \<Rightarrow> real \<Rightarrow> vec3" where
  "levelDirection f r t p =
     Vector3 (vx (levelHorizontal f r t) * cos p) (sin p) (vz (levelHorizontal f r t) * cos p)"

text \<open>The configured ranges together with the configuration that the methods never
  write and a pinch state that is a number.\<close>

definition cameraInv :: "camera_controller \<Rightarrow> bool" where
  "cameraInv c =
     (minDistance c = 8 \<and> maxDistance c = 64 \<and> minFOV c = 0.5 \<and> maxFOV c = 5 \<and>
      initialCameraDistance c \<noteq> NaN \<and> cameraInRange c)"

text \<open>The orientation of an object of the rendering engine is a quaternion of length
  one.\<close>

definition unitQuaternion :: "quaternion \<Rightarrow> bool" where
  "unitQuaternion q = ((qx q)\<^sup>2 + (qy q)\<^sup>2 + (qz q)\<^sup>2 + (qw q)\<^sup>2 = 1)"

text \<open>A camera looking straight down: rotated by a quarter turn about its right axis.\<close>

definition downwardCamera :: camera where
  "downwardCamera = \<lparr>cam_quaternion = \<lparr>qx = - (sqrt 2 / 2), qy = 0, qz = 0, qw = sqrt 2 / 2\<rparr>\<rparr>"

text \<open>Reading the spherical position back after an operation that may raise.\<close>

definition readBack :: "camera option \<Rightarrow> js_error + 'o area_light \<Rightarrow> js_error + spherical" where
  "readBack cam r = (case r of Inl err \<Rightarrow> Inl err | Inr l \<Rightarrow> Inr (getPositionSpherical cam l))"

text \<open>Concrete lights for the examples: an engine whose orientations carry no
  information, and the key light moved to a given position relative to the pivot.\<close>

definition plainLookAt :: "unit look_at" where
  "plainLookAt = (\<lambda>g p t. ())"

definition lightAt :: "real \<Rightarrow> real \<Rightarrow> real \<Rightarrow> unit area_light" where
  "lightAt x y z = setPositionCartesian plainLookAt x y z (AreaLight_new plainLookAt Key)"

text \<open>What \<^verbatim>\<open>parseFloat\<close> does on a string of decimal digits, which is all the
  examples need: the number the digits denote. Any other string is not a number here.\<close>

definition isDigit :: "char \<Rightarrow> bool" where
  "isDigit c = (c \<in> set ''0123456789'')"

definition digitValue :: "char \<Rightarrow> nat" where
  "digitValue c = (case map_of (zip ''0123456789'' [0, 1, 2, 3, 4, 5, 6, 7, 8, 9]) c of
                     Some n \<Rightarrow> n | None \<Rightarrow> 0)"

definition parseDigits :: "string \<Rightarrow> real option" where
  "parseDigits s =
     (if s \<noteq> [] \<and> list_all isDigit s
      then Some (real (foldl (\<lambda>n c. 10 * n + digitValue c) 0 s))
      else None)"

text \<open>The key light placed at given spherical coordinates, as the application's camera
  sees them.\<close>

definition lightAtSpherical :: "real \<Rightarrow> real \<Rightarrow> real \<Rightarrow> unit area_light" where
  "lightAtSpherical a e d =
     (case sphericalToCartesian (DNum a) e d defaultCamera of
        Inr p \<Rightarrow> lightAt (vx p) (vy p) (vz p)
      | Inl err \<Rightarrow> lightAt 0 0 0)"

text \<open>The application after \<^verbatim>\<open>init\<close> with an open connection, and the application
  while the pointer is over the key light.\<close>

definition connectedApp :: "(unit, unit) application" where
  "connectedApp =
     Application_init plainLookAt (Some \<lparr>isConnected = True, sentStateUpdates = []\<rparr>)"

definition hoveringKey :: "(unit, unit) application" where
  "hoveringKey = hoverRun plainLookAt None [[KeyPicker]]"

text \<open>The hover state is consistent: both lights have their picker and overlay, the
  overlay of a light is visible exactly when the light is the hovered one, and the mode
  is \<^verbatim>\<open>AREA_LIGHT_MANIPULATION\<close> exactly when a light is hovered.\<close>

definition hoverInv :: "('o, 'snap) application \<Rightarrow> bool" where
  "hoverInv app =
     ((case sm_keyLight (sceneManager app) of
         None \<Rightarrow> False
       | Some kl \<Rightarrow>
           pickerGeometry kl = Some KeyPicker \<and>
           highlightOverlay kl = Some (currentHoveredAreaLight app = Some KeyLightRef)) \<and>
      (case sm_fillLight (sceneManager app) of
         None \<Rightarrow> False
       | Some fl \<Rightarrow>
           pickerGeometry fl = Some FillPicker \<and>
           highlightOverlay fl = Some (currentHoveredAreaLight app = Some FillLightRef)) \<and>
      currentMode app =
        (if currentHoveredAreaLight app = None then MODEL_ROTATION else AREA_LIGHT_MANIPULATION))"

text \<open>The position mutations of a light as events. An operation that raises leaves the
  light as it was: \<^verbatim>\<open>sphericalToCartesian\<close> raises before the position is written, and
  \<^verbatim>\<open>rotate\<close> raises only for a light without a light object, which the constructor
  excludes.\<close>

datatype light_op =
    SetPositionSpherical direction real
  | SetDistance real
  | SetPositionCartesian real real real
  | Dolly real
  | Rotate real real
  | RotateClockwise "real option"
  | RotateCounterclockwise "real option"
  | NudgeElevationUp "real option"
  | NudgeElevationDown "real option"
  | MoveTowardDirection direction "real option"

fun lightStep ::
  "'o look_at \<Rightarrow> (string \<Rightarrow> real option) \<Rightarrow> camera option \<Rightarrow> 'o area_light \<Rightarrow> light_op
     \<Rightarrow> js_error + 'o area_light" where
  "lightStep L pf cam l (SetPositionSpherical a e) = setPositionSpherical L a e cam l"
| "lightStep L pf cam l (SetDistance d) = setDistance L d cam l"
| "lightStep L pf cam l (SetPositionCartesian x y z) = Inr (setPositionCartesian L x y z l)"
| "lightStep L pf cam l (Dolly delta) = Inr (dolly L delta l)"
| "lightStep L pf cam l (Rotate dx dy) = rotate L dx dy l"
| "lightStep L pf cam l (RotateClockwise d) = rotateClockwise L d cam l"
| "lightStep L pf cam l (RotateCounterclockwise d) = rotateCounterclockwise L d cam l"
| "lightStep L pf cam l (NudgeElevationUp d) = nudgeElevationUp L d cam l"
| "lightStep L pf cam l (NudgeElevationDown d) = nudgeElevationDown L d cam l"
| "lightStep L pf cam l (MoveTowardDirection t d) = moveTowardDirection L pf t d cam l"

definition lightApply ::
  "'o look_at \<Rightarrow> (string \<Rightarrow> real option) \<Rightarrow> camera option \<Rightarrow> 'o area_light \<Rightarrow> light_op
     \<Rightarrow> 'o area_light" where
  "lightApply L pf cam l op = (case lightStep L pf cam l op of Inl err \<Rightarrow> l | Inr l' \<Rightarrow> l')"

definition lightRun ::
  "'o look_at \<Rightarrow> (string \<Rightarrow> real option) \<Rightarrow> camera option \<Rightarrow> light_type \<Rightarrow> light_op list
     \<Rightarrow> 'o area_light" where
  "lightRun L pf cam ty ops = foldl (lightApply L pf cam) (AreaLight_new L ty) ops"

text \<open>An engine whose orientation records the arguments of the last
  \<^verbatim>\<open>lookAt\<close> call.\<close>

definition recordingLookAt :: "(object3d option \<times> vec3 \<times> vec3) look_at" where
  "recordingLookAt = (\<lambda>g p t. (g, p, t))"

text \<open>The orientation stored in the light is the one \<^verbatim>\<open>lookAt\<close> computes for the
  light's present parent group, present position and configured target.\<close>

definition facesTarget :: "'o look_at \<Rightarrow> 'o area_light \<Rightarrow> bool" where
  "facesTarget L l =
     (case areaLight l of
        None \<Rightarrow> True
      | Some al \<Rightarrow>
          orientation al = L (parentGroup l) (position al) (TARGET (lightConfig (lightType l))))"

section \<open>Vectors and angles\<close>

lemma vec3_sel [simp]:
  "vx (Vector3 x y z) = x" "vy (Vector3 x y z) = y" "vz (Vector3 x y z) = z"
  by (simp_all add: Vector3_def)

lemma vec3_eqI: "vx a = vx b \<Longrightarrow> vy a = vy b \<Longrightarrow> vz a = vz b \<Longrightarrow> a = (b::vec3)"
  by simp

lemma Vector3_eta [simp]: "Vector3 (vx v) (vy v) (vz v) = v"
  by (simp add: Vector3_def)

lemma vlength_nonneg [simp]: "0 \<le> vlength v"
  by (simp add: vlength_def)

lemma vlength_multiplyScalar: "vlength (multiplyScalar v s) = \<bar>s\<bar> * vlength v"
proof -
  have "vx v * s * (vx v * s) + vy v * s * (vy v * s) + vz v * s * (vz v * s)
        = s\<^sup>2 * (vx v * vx v + vy v * vy v + vz v * vz v)"
    by (simp add: power2_eq_square algebra_simps)
  then show ?thesis
    by (simp add: vlength_def multiplyScalar_def real_sqrt_mult)
qed

lemma vlength_normalize: "vlength v \<noteq> 0 \<Longrightarrow> vlength (normalize v) = 1"
  using vlength_nonneg [of v]
  by (simp add: normalize_def divideScalar_def vlength_multiplyScalar)

lemma normalize_unit: "vlength v = 1 \<Longrightarrow> normalize v = v"
  by (simp add: normalize_def divideScalar_def multiplyScalar_def)

lemma js_rem_small: "0 \<le> a \<Longrightarrow> a < m \<Longrightarrow> js_rem a m = a"
proof -
  assume a: "0 \<le> a" "a < m"
  then have "0 \<le> a / m" "a / m < 1" by simp_all
  then have "\<lfloor>a / m\<rfloor> = 0" by linarith
  with \<open>0 \<le> a / m\<close> show ?thesis by (simp add: js_rem_def)
qed

lemma cos_neg_upper: assumes "pi / 2 < t" "t \<le> pi" shows "cos t < 0"
proof -
  have "0 < sin (t - pi / 2)" using assms by (intro sin_gt_zero) auto
  then show ?thesis by (simp add: sin_diff)
qed

lemma cos_neg_lower: assumes "- pi < t" "t < - (pi / 2)" shows "cos t < 0"
proof -
  have "cos (- t) < 0" using assms by (intro cos_neg_upper) auto
  then show ?thesis by simp
qed

lemma sin_neg_lower: assumes "- pi < t" "t < 0" shows "sin t < 0"
proof -
  have "0 < sin (- t)" using assms by (intro sin_gt_zero) auto
  then show ?thesis by simp
qed

lemma atan2_sin_cos:
  assumes "- pi < t" "t \<le> pi"
  shows "Math_atan2 (sin t) (cos t) = t"
proof -
  consider (mid) "- (pi / 2) < t" "t < pi / 2" | (up) "pi / 2 < t" | (lo) "t < - (pi / 2)"
    | (pu) "t = pi / 2" | (pl) "t = - (pi / 2)"
    by linarith
  then show ?thesis
  proof cases
    case mid
    then have "0 < cos t" by (simp add: cos_gt_zero_pi)
    moreover have "arctan (sin t / cos t) = t"
      using mid arctan_tan [of t] by (simp add: tan_def)
    ultimately show ?thesis by (simp add: Math_atan2_def)
  next
    case up
    then have c: "cos t < 0" using assms by (simp add: cos_neg_upper)
    have s: "0 \<le> sin t" using up assms by (intro sin_ge_zero) auto
    have "tan (t - pi) = sin t / cos t"
      by (simp add: tan_def sin_diff cos_diff)
    moreover have "arctan (tan (t - pi)) = t - pi"
      using up assms by (intro arctan_tan) auto
    ultimately have "arctan (sin t / cos t) = t - pi" by simp
    with c s show ?thesis by (simp add: Math_atan2_def)
  next
    case lo
    then have c: "cos t < 0" using assms by (simp add: cos_neg_lower)
    have s: "sin t < 0" using lo assms pi_gt_zero by (intro sin_neg_lower) linarith+
    have "tan (t + pi) = sin t / cos t"
      by (simp add: tan_def sin_add cos_add)
    moreover have "arctan (tan (t + pi)) = t + pi"
      using lo assms by (intro arctan_tan) auto
    ultimately have "arctan (sin t / cos t) = t + pi" by simp
    with c s show ?thesis by (simp add: Math_atan2_def)
  next
    case pu
    show ?thesis unfolding pu by (simp add: Math_atan2_def)
  next
    case pl
    show ?thesis unfolding pl by (simp add: Math_atan2_def)
  qed
qed

section \<open>The round trip for a level camera\<close>

lemma vlength_dot: "vlength v = sqrt (dot v v)"
  by (simp add: vlength_def dot_def)

lemma yaw_poly:
  fixes y w :: real
  assumes "y\<^sup>2 + w\<^sup>2 = 1"
  shows "(- 2 * w * y) * (- 2 * w * y) + (2 * y\<^sup>2 - 1) * (2 * y\<^sup>2 - 1) = 1"
    and "(1 - 2 * y\<^sup>2) * (1 - 2 * y\<^sup>2) + (- 2 * w * y) * (- 2 * w * y) = 1"
    and "(- 2 * w * y) * (1 - 2 * y\<^sup>2) + (2 * y\<^sup>2 - 1) * (- 2 * w * y) = 0"
proof -
  show "(- 2 * w * y) * (- 2 * w * y) + (2 * y\<^sup>2 - 1) * (2 * y\<^sup>2 - 1) = 1"
    using assms by algebra
  show "(1 - 2 * y\<^sup>2) * (1 - 2 * y\<^sup>2) + (- 2 * w * y) * (- 2 * w * y) = 1"
    using assms by algebra
  show "(- 2 * w * y) * (1 - 2 * y\<^sup>2) + (2 * y\<^sup>2 - 1) * (- 2 * w * y) = 0"
    by (simp add: algebra_simps)
qed

lemma yaw_forward:
  assumes "qx (cam_quaternion cam) = 0" "qz (cam_quaternion cam) = 0"
    "(qy (cam_quaternion cam))\<^sup>2 + (qw (cam_quaternion cam))\<^sup>2 = 1"
  shows "getCameraForward cam =
     Vector3 (- 2 * qw (cam_quaternion cam) * qy (cam_quaternion cam)) 0
        (2 * (qy (cam_quaternion cam))\<^sup>2 - 1)"
proof -
  let ?y = "qy (cam_quaternion cam)" and ?w = "qw (cam_quaternion cam)"
  let ?v = "Vector3 (- 2 * ?w * ?y) 0 (2 * ?y\<^sup>2 - 1)"
  have a: "applyQuaternion (Vector3 0 0 (-1)) (cam_quaternion cam) = ?v"
    using assms by (simp add: applyQuaternion_def Let_def power2_eq_square algebra_simps)
  have "dot ?v ?v = 1"
    using yaw_poly [OF assms(3)] by (simp add: dot_def)
  then have "vlength ?v = 1" by (simp add: vlength_dot)
  then show ?thesis unfolding getCameraForward_def a by (rule normalize_unit)
qed

lemma yaw_right:
  assumes "qx (cam_quaternion cam) = 0" "qz (cam_quaternion cam) = 0"
    "(qy (cam_quaternion cam))\<^sup>2 + (qw (cam_quaternion cam))\<^sup>2 = 1"
  shows "getCameraRight cam =
     Vector3 (1 - 2 * (qy (cam_quaternion cam))\<^sup>2) 0
        (- 2 * qw (cam_quaternion cam) * qy (cam_quaternion cam))"
proof -
  let ?y = "qy (cam_quaternion cam)" and ?w = "qw (cam_quaternion cam)"
  let ?v = "Vector3 (1 - 2 * ?y\<^sup>2) 0 (- 2 * ?w * ?y)"
  have a: "applyQuaternion (Vector3 1 0 0) (cam_quaternion cam) = ?v"
    using assms by (simp add: applyQuaternion_def Let_def power2_eq_square algebra_simps)
  have "dot ?v ?v = 1"
    using yaw_poly [OF assms(3)] by (simp add: dot_def)
  then have "vlength ?v = 1" by (simp add: vlength_dot)
  then show ?thesis unfolding getCameraRight_def a by (rule normalize_unit)
qed

lemma yaw_levelBasis:
  assumes "qx (cam_quaternion cam) = 0" "qz (cam_quaternion cam) = 0"
    "(qy (cam_quaternion cam))\<^sup>2 + (qw (cam_quaternion cam))\<^sup>2 = 1"
  shows "levelBasis (getCameraForward cam) (getCameraRight cam)"
proof -
  let ?y = "qy (cam_quaternion cam)" and ?w = "qw (cam_quaternion cam)"
  show ?thesis
    unfolding yaw_forward [OF assms] yaw_right [OF assms] levelBasis_def
    using yaw_poly [OF assms(3)] by (simp add: dot_def)
qed

lemma levelHorizontal_dot:
  assumes "levelBasis f r"
  shows "dot (levelHorizontal f r t) (levelHorizontal f r t) = 1"
    and "dot (levelHorizontal f r t) f = cos t"
    and "dot (levelHorizontal f r t) r = sin t"
proof -
  from assms have ff: "vx f * vx f + vz f * vz f = 1" and rr: "vx r * vx r + vz r * vz r = 1"
    and fr: "vx f * vx r + vz f * vz r = 0" and fy: "vy f = 0" and ry: "vy r = 0"
    by (auto simp add: levelBasis_def dot_def)
  have "dot (levelHorizontal f r t) (levelHorizontal f r t)
        = (vx f * vx f + vz f * vz f) * (cos t)\<^sup>2 + (vx r * vx r + vz r * vz r) * (sin t)\<^sup>2
          + 2 * (vx f * vx r + vz f * vz r) * (cos t * sin t)"
    by (simp add: dot_def levelHorizontal_def power2_eq_square algebra_simps)
  then show "dot (levelHorizontal f r t) (levelHorizontal f r t) = 1"
    by (simp add: ff rr fr)
  have "dot (levelHorizontal f r t) f
        = (vx f * vx f + vz f * vz f) * cos t + (vx f * vx r + vz f * vz r) * sin t"
    by (simp add: dot_def levelHorizontal_def algebra_simps)
  then show "dot (levelHorizontal f r t) f = cos t" by (simp add: ff fr)
  have "dot (levelHorizontal f r t) r
        = (vx f * vx r + vz f * vz r) * cos t + (vx r * vx r + vz r * vz r) * sin t"
    by (simp add: dot_def levelHorizontal_def algebra_simps)
  then show "dot (levelHorizontal f r t) r = sin t" by (simp add: rr fr)
qed

lemma levelDirection_dot:
  assumes "levelBasis f r"
  shows "dot (levelDirection f r t p) (levelDirection f r t p) = 1"
proof -
  have "dot (levelDirection f r t p) (levelDirection f r t p)
        = dot (levelHorizontal f r t) (levelHorizontal f r t) * (cos p)\<^sup>2 + (sin p)\<^sup>2"
    by (simp add: dot_def levelDirection_def levelHorizontal_def power2_eq_square algebra_simps)
  then show ?thesis by (simp add: levelHorizontal_dot [OF assms])
qed

lemma degToRad_mono: "a \<le> b \<Longrightarrow> degToRad a \<le> degToRad b"
  by (simp add: degToRad_def)

lemma degToRad_strict_mono: "a < b \<Longrightarrow> degToRad a < degToRad b"
  by (simp add: degToRad_def)

lemma degToRad_values:
  "degToRad 0 = 0" "degToRad 90 = pi / 2" "degToRad (- 90) = - (pi / 2)"
  "degToRad 360 = 2 * pi" "degToRad 180 = pi"
  by (simp_all add: degToRad_def)

lemma radToDeg_degToRad [simp]: "radToDeg (degToRad x) = x"
  by (simp add: radToDeg_def degToRad_def)

lemma normalize_scaled:
  assumes "vlength v = 1" "0 < s"
  shows "normalize (multiplyScalar v s) = v"
proof -
  have l: "vlength (multiplyScalar v s) = s"
    using assms by (simp add: vlength_multiplyScalar)
  have "divideScalar (multiplyScalar v s) s = v"
    using assms(2) by (simp add: divideScalar_def multiplyScalar_def)
  then show ?thesis using assms(2) by (simp add: normalize_def l)
qed

lemma sphericalToCartesian_level:
  assumes lb: "levelBasis (getCameraForward cam) (getCameraRight cam)"
    and az: "directionToAzimuthAngle a = Some az"
  shows "sphericalToCartesian a e d cam =
     Inr (multiplyScalar
            (levelDirection (getCameraForward cam) (getCameraRight cam) (degToRad az)
               (degToRad e)) d)"
proof -
  let ?f = "getCameraForward cam" and ?r = "getCameraRight cam"
  let ?t = "degToRad az" and ?p = "degToRad e"
  let ?h = "levelHorizontal ?f ?r ?t"
  from lb have fy: "vy ?f = 0" and ry: "vy ?r = 0" by (simp_all add: levelBasis_def)
  have hd: "addScaledVector (addScaledVector (Vector3 0 0 0) ?f (cos ?t)) ?r (sin ?t) = ?h"
    by (simp add: addScaledVector_def levelHorizontal_def fy ry)
  have vc: "dot ?h worldUp = 0"
    by (simp add: dot_def worldUp_def levelHorizontal_def)
  have pr: "vsub ?h (multiplyScalar worldUp 0) = ?h"
    by (simp add: vsub_def multiplyScalar_def worldUp_def levelHorizontal_def)
  have hl: "vlength ?h = 1"
    by (simp add: vlength_dot levelHorizontal_dot [OF lb])
  have hn: "normalize ?h = ?h" using hl by (rule normalize_unit)
  have dd: "addScaledVector (addScaledVector (Vector3 0 0 0) ?h (cos ?p)) worldUp (sin ?p)
            = levelDirection ?f ?r ?t ?p"
    by (simp add: addScaledVector_def levelDirection_def worldUp_def levelHorizontal_def)
  have dl: "vlength (levelDirection ?f ?r ?t ?p) = 1"
    by (simp add: vlength_dot levelDirection_dot [OF lb])
  have dn: "normalize (levelDirection ?f ?r ?t ?p) = levelDirection ?f ?r ?t ?p"
    using dl by (rule normalize_unit)
  show ?thesis
    by (simp add: sphericalToCartesian_def az Let_def hd vc pr hl hn dd dn)
qed

lemma cartesianToSpherical_level:
  assumes lb: "levelBasis (getCameraForward cam) (getCameraRight cam)"
    and a: "0 \<le> a" "a < 360"
    and e: "- 90 \<le> e" "e \<le> 90" "0.0001 < cos (degToRad e)"
    and d: "0.0001 \<le> d"
    and p: "p = multiplyScalar
            (levelDirection (getCameraForward cam) (getCameraRight cam) (degToRad a)
               (degToRad e)) d"
  shows "cartesianToSpherical (vx p) (vy p) (vz p) cam =
           \<lparr>azimuth = a, elevation = e, distance = d\<rparr>"
proof -
  let ?f = "getCameraForward cam" and ?r = "getCameraRight cam"
  let ?t = "degToRad a" and ?p = "degToRad e"
  let ?h = "levelHorizontal ?f ?r ?t"
  let ?dir = "levelDirection ?f ?r ?t ?p"
  have dl: "vlength ?dir = 1"
    by (simp add: vlength_dot levelDirection_dot [OF lb])
  have pl: "vlength p = d"
    using d by (simp add: p vlength_multiplyScalar dl)
  have pn: "normalize p = ?dir"
    unfolding p using dl d by (intro normalize_scaled) auto
  have du: "dot ?dir worldUp = sin ?p"
    by (simp add: dot_def worldUp_def levelDirection_def)
  have pr: "- (pi / 2) \<le> ?p" "?p \<le> pi / 2"
    using degToRad_mono [OF e(1)] degToRad_mono [OF e(2)] by (simp_all add: degToRad_values)
  have el: "arcsin (sin ?p) = ?p"
    using pr by (simp add: arcsin_sin)
  have hz: "vsub ?dir (multiplyScalar worldUp (sin ?p)) = multiplyScalar ?h (cos ?p)"
    by (simp add: vsub_def multiplyScalar_def worldUp_def levelDirection_def levelHorizontal_def)
  have hl: "vlength ?h = 1"
    by (simp add: vlength_dot levelHorizontal_dot [OF lb])
  have hzl: "vlength (multiplyScalar ?h (cos ?p)) = cos ?p"
    using e by (simp add: vlength_multiplyScalar hl)
  have hzn: "normalize (multiplyScalar ?h (cos ?p)) = ?h"
    using hl e by (intro normalize_scaled) auto
  have tr: "0 \<le> ?t" "?t < 2 * pi"
    using degToRad_mono [OF a(1)] degToRad_strict_mono [OF a(2)]
    by (simp_all add: degToRad_values)
  have azm: "(let azimuth = radToDeg (Math_atan2 (sin ?t) (cos ?t))
              in if azimuth < 0 then azimuth + 360 else azimuth) = a"
  proof (cases "?t \<le> pi")
    case True
    then have "Math_atan2 (sin ?t) (cos ?t) = ?t"
      using tr by (intro atan2_sin_cos) auto
    then show ?thesis using a by simp
  next
    case False
    then have "Math_atan2 (sin (?t - 2 * pi)) (cos (?t - 2 * pi)) = ?t - 2 * pi"
      using tr by (intro atan2_sin_cos) auto
    then have "Math_atan2 (sin ?t) (cos ?t) = ?t - 2 * pi"
      by (simp add: sin_diff cos_diff)
    then have "radToDeg (Math_atan2 (sin ?t) (cos ?t)) = radToDeg (?t - 2 * pi)"
      by simp
    also have "\<dots> = radToDeg ?t - radToDeg (2 * pi)"
      by (simp add: radToDeg_def diff_divide_distrib left_diff_distrib)
    also have "radToDeg (2 * pi) = 360"
      by (simp add: radToDeg_def)
    finally have "radToDeg (Math_atan2 (sin ?t) (cos ?t)) = a - 360"
      by simp
    then show ?thesis using a by simp
  qed
  have xyz: "Vector3 (vx p) (vy p) (vz p) = p" by simp
  show ?thesis
    using d e azm
    by (auto simp add: cartesianToSpherical_def xyz pl pn du el hz hzl hzn Let_def
        levelHorizontal_dot [OF lb] split: if_splits)
qed

lemma roundTrip_level:
  assumes lb: "levelBasis (getCameraForward cam) (getCameraRight cam)"
    and a: "0 \<le> a" "a < 360"
    and e: "- 90 \<le> e" "e \<le> 90" "0.0001 < cos (degToRad e)"
    and d: "0.0001 \<le> d"
  shows "roundTrip (DNum a) e d cam = Inr \<lparr>azimuth = a, elevation = e, distance = d\<rparr>"
proof -
  have az: "directionToAzimuthAngle (DNum a) = Some a"
    using a by (simp add: directionToAzimuthAngle_def js_rem_small)
  show ?thesis
    unfolding roundTrip_def sphericalToCartesian_level [OF lb az]
    using cartesianToSpherical_level [OF lb a e d refl] by simp
qed

section \<open>The camera stays within its ranges\<close>

lemma cameraInv_new: "cameraInv CameraController_new"
  by (simp add: cameraInv_def cameraInRange_def CameraController_new_def)

lemma clamp_range:
  "lo \<le> hi \<Longrightarrow> lo \<le> max lo (min hi (v::real)) \<and> max lo (min hi v) \<le> hi"
  by auto

lemma clamp_withinRange:
  "lo \<le> hi \<Longrightarrow> withinRange lo hi (Math_max (Num lo) (Math_min (Num hi) (Num v)))"
  using clamp_range [of lo hi v] by simp

lemma clamp_NaN: "Math_max (Num lo) (Math_min (Num hi) NaN) = NaN"
  by simp

lemma withinRange_Num: "withinRange lo hi v \<Longrightarrow> \<exists>x. v = Num x"
  by (cases v) simp_all

lemma cameraInv_number:
  assumes "cameraInv c"
  obtains z f i where "camera_position_z c = Num z" and "camera_zoom c = Num f"
    and "initialCameraDistance c = Num i"
proof -
  from assms have "withinRange 8 64 (camera_position_z c)" "withinRange 0.5 5 (camera_zoom c)"
    and n: "initialCameraDistance c \<noteq> NaN"
    by (simp_all add: cameraInv_def cameraInRange_def)
  then obtain z f where zf: "camera_position_z c = Num z" "camera_zoom c = Num f"
    by (blast dest: withinRange_Num)
  from n obtain i where "initialCameraDistance c = Num i"
    by (cases "initialCameraDistance c") simp_all
  with zf show thesis by (rule that)
qed

lemma cameraInv_distance:
  assumes "cameraInv c"
  shows "cameraInv (c\<lparr>camera_position_z := clampDistance c (Num v)\<rparr>)"
proof -
  from assms have m: "minDistance c = 8" "maxDistance c = 64"
    by (simp_all add: cameraInv_def)
  have "withinRange 8 64 (clampDistance c (Num v))"
    unfolding clampDistance_def m by (rule clamp_withinRange) simp
  with assms show ?thesis by (simp add: cameraInv_def cameraInRange_def)
qed

lemma cameraInv_zoom:
  assumes "cameraInv c"
  shows "cameraInv (c\<lparr>camera_zoom := clampFOV c (Num v)\<rparr>)"
proof -
  from assms have m: "minFOV c = 0.5" "maxFOV c = 5"
    by (simp_all add: cameraInv_def)
  have "withinRange 0.5 5 (clampFOV c (Num v))"
    unfolding clampFOV_def m by (rule clamp_withinRange) simp
  with assms show ?thesis by (simp add: cameraInv_def cameraInRange_def)
qed

lemma cameraInv_applyDolly:
  assumes "cameraInv c"
  shows "cameraInv (applyDolly (Num d) c)"
proof -
  from assms obtain z where "camera_position_z c = Num z" by (rule cameraInv_number)
  then show ?thesis using cameraInv_distance [OF assms, of "z + d"] by (simp add: applyDolly_def)
qed

lemma cameraInv_applyFOVChange:
  assumes "cameraInv c"
  shows "cameraInv (applyFOVChange (Num d) c)"
proof -
  from assms obtain f where "camera_zoom c = Num f" by (rule cameraInv_number)
  then show ?thesis using cameraInv_zoom [OF assms, of "f + d"] by (simp add: applyFOVChange_def)
qed

text \<open>The delta of a relative control is a number, whatever the amount.\<close>

lemma relative_delta:
  "\<exists>x. (if defaultNull a \<noteq> Null then toNumber (defaultNull a) else Num s) = Num x"
  "\<exists>x. (if defaultNull a \<noteq> Null then js_negate (toNumber (defaultNull a)) else Num s) = Num x"
  by (cases a; simp add: defaultNull_def)+

lemma cameraInv_step:
  assumes "cameraInv c" and "argumentGiven op"
  shows "cameraInv (cameraStep c op)"
proof (cases op)
  case (HandleWheel deltaY shift)
  with assms(1) show ?thesis
    by (simp add: handleWheel_def cameraInv_applyDolly cameraInv_applyFOVChange)
next
  case (StartPinchZoom t1 t2)
  from assms(1) obtain z where "camera_position_z c = Num z" by (rule cameraInv_number)
  with assms(1) show ?thesis
    by (simp add: StartPinchZoom startPinchZoom_def cameraInv_def cameraInRange_def)
next
  case (UpdatePinchZoom t1 t2)
  from assms(1) obtain i where "initialCameraDistance c = Num i" by (rule cameraInv_number)
  with assms(1) show ?thesis
    by (simp add: UpdatePinchZoom updatePinchZoom_def cameraInv_distance Let_def)
next
  case (DollyCamera d)
  with assms(2) obtain x where "toNumber d = Num x" by (cases d) simp_all
  with assms(1) show ?thesis
    by (simp add: DollyCamera dollyCamera_def cameraInv_distance)
next
  case (DollyCameraIn a)
  obtain x where "(if defaultNull a \<noteq> Null then js_negate (toNumber (defaultNull a))
                   else Num (- dollySpeed c)) = Num x"
    using relative_delta(2) by blast
  with assms(1) show ?thesis
    by (simp add: DollyCameraIn dollyCameraIn_def Let_def cameraInv_applyDolly)
next
  case (DollyCameraOut a)
  obtain x where "(if defaultNull a \<noteq> Null then toNumber (defaultNull a)
                   else Num (dollySpeed c)) = Num x"
    using relative_delta(1) by blast
  with assms(1) show ?thesis
    by (simp add: DollyCameraOut dollyCameraOut_def Let_def cameraInv_applyDolly)
next
  case (SetCameraFOV f)
  with assms(2) obtain x where "toNumber f = Num x" by (cases f) simp_all
  with assms(1) show ?thesis
    by (simp add: SetCameraFOV setCameraFOV_def cameraInv_zoom)
next
  case (IncreaseCameraFOV a)
  obtain x where "(if defaultNull a \<noteq> Null then toNumber (defaultNull a)
                   else Num (fovSpeed c)) = Num x"
    using relative_delta(1) by blast
  with assms(1) show ?thesis
    by (simp add: IncreaseCameraFOV increaseCameraFOV_def Let_def cameraInv_applyFOVChange)
next
  case (DecreaseCameraFOV a)
  obtain x where "(if defaultNull a \<noteq> Null then js_negate (toNumber (defaultNull a))
                   else Num (- fovSpeed c)) = Num x"
    using relative_delta(2) by blast
  with assms(1) show ?thesis
    by (simp add: DecreaseCameraFOV decreaseCameraFOV_def Let_def cameraInv_applyFOVChange)
qed

lemma cameraInv_foldl:
  "cameraInv c \<Longrightarrow> list_all argumentGiven ops \<Longrightarrow> cameraInv (foldl cameraStep c ops)"
  by (induction ops arbitrary: c) (simp_all add: cameraInv_step)

lemma cameraInv_run: "list_all argumentGiven ops \<Longrightarrow> cameraInv (cameraRun ops)"
  unfolding cameraRun_def by (rule cameraInv_foldl [OF cameraInv_new])

text \<open>
  Claim C6 as stated fails when a command leaves its argument out. The handler of
  \<^verbatim>\<open>dollyCamera\<close> passes \<^verbatim>\<open>command.distance\<close> on as it is; for a command without
  that field it is \<^verbatim>\<open>undefined\<close>, the clamp
  \<^verbatim>\<open>Math.max(8, Math.min(64, undefined))\<close> is NaN, and the camera distance is NaN, in
  no range. The same holds of \<^verbatim>\<open>setCameraFOV\<close> and the zoom.
\<close>

theorem dollyCamera_undefined_counterexample:
  "camera_position_z (cameraRun [DollyCamera Undefined]) = NaN \<and>
   camera_zoom (cameraRun [SetCameraFOV Undefined]) = NaN \<and>
   \<not> cameraInRange (cameraRun [DollyCamera Undefined]) \<and>
   \<not> cameraInRange (cameraRun [SetCameraFOV Undefined])"
  by (simp add: cameraRun_def dollyCamera_def setCameraFOV_def clampDistance_def clampFOV_def
      cameraInRange_def CameraController_new_def)

text \<open>The relative controls, the wheel and the pinch keep a distance that is NaN; only
  \<^verbatim>\<open>dollyCamera\<close> with a distance brings it back into the range.\<close>

lemma applyDolly_NaN:
  "camera_position_z c = NaN \<Longrightarrow> camera_position_z (applyDolly d c) = NaN"
  by (simp add: applyDolly_def clampDistance_def)

lemma distance_stays_NaN:
  assumes "camera_position_z c = NaN"
  shows "camera_position_z (handleWheel deltaY shift c) = NaN"
    and "camera_position_z (dollyCameraIn a c) = NaN"
    and "camera_position_z (dollyCameraOut a c) = NaN"
    and "camera_position_z (updatePinchZoom t1 t2 (startPinchZoom t1 t2 c)) = NaN"
  using assms
  by (simp_all add: handleWheel_def dollyCameraIn_def dollyCameraOut_def Let_def applyDolly_NaN
      applyFOVChange_def updatePinchZoom_def startPinchZoom_def clampDistance_def)

lemma dollyCamera_restores:
  "minDistance c = 8 \<Longrightarrow> maxDistance c = 64 \<Longrightarrow>
   withinRange 8 64 (camera_position_z (dollyCamera (Number d) c))"
  using clamp_withinRange [of 8 64 d] by (simp add: dollyCamera_def clampDistance_def)

text \<open>
  Claim C6, as amended. Start from a new camera controller and run any sequence of camera
  operations (wheel with or without the modifier, pinch start and update,
  \<^verbatim>\<open>dollyCamera\<close>, \<^verbatim>\<open>dollyCameraIn\<close>, \<^verbatim>\<open>dollyCameraOut\<close>, \<^verbatim>\<open>setCameraFOV\<close>,
  \<^verbatim>\<open>increaseCameraFOV\<close>, \<^verbatim>\<open>decreaseCameraFOV\<close>) in which every
  \<^verbatim>\<open>dollyCamera\<close> and every \<^verbatim>\<open>setCameraFOV\<close> is given its argument; the amounts of
  the relative controls may be left out. Afterwards the camera distance lies in
  \<open>[8, 64]\<close> and the zoom in \<open>[0.5, 5]\<close>, and a further \<^verbatim>\<open>dollyCamera(100)\<close> leaves
  the distance at exactly 64.
\<close>

theorem camera_within_range:
  assumes "list_all argumentGiven ops"
  shows "cameraInRange (cameraRun ops) \<and>
         camera_position_z (dollyCamera (Number 100) (cameraRun ops)) = Num 64"
  using cameraInv_run [OF assms]
  by (simp add: cameraInv_def dollyCamera_def clampDistance_def)

theorem camera_within_range_witness:
  "list_all argumentGiven
     [DollyCamera (Number 100), HandleWheel 1 True, DollyCameraIn Undefined, SetCameraFOV Null] \<and>
   cameraInRange
     (cameraRun
        [DollyCamera (Number 100), HandleWheel 1 True, DollyCameraIn Undefined, SetCameraFOV Null]) \<and>
   camera_position_z
     (dollyCamera (Number 100)
        (cameraRun
           [DollyCamera (Number 100), HandleWheel 1 True, DollyCameraIn Undefined,
            SetCameraFOV Null])) = Num 64"
  using camera_within_range
    [of "[DollyCamera (Number 100), HandleWheel 1 True, DollyCameraIn Undefined, SetCameraFOV Null]"]
  by simp

text \<open>The scenario on the new controller: \<^verbatim>\<open>dollyCamera(100)\<close> gives 64.\<close>

lemma dollyCamera_100: "camera_position_z (cameraRun [DollyCamera (Number 100)]) = Num 64"
  by (simp add: cameraRun_def dollyCamera_def clampDistance_def CameraController_new_def)

section \<open>Cameras with a unit quaternion\<close>

lemma unit_poly:
  fixes x y z w :: real
  assumes "x\<^sup>2 + y\<^sup>2 + z\<^sup>2 + w\<^sup>2 = 1"
  shows "(- (2 * (w * y + x * z))) * (- (2 * (w * y + x * z)))
         + (2 * (w * x - y * z)) * (2 * (w * x - y * z))
         + (2 * x\<^sup>2 + 2 * y\<^sup>2 - 1) * (2 * x\<^sup>2 + 2 * y\<^sup>2 - 1) = 1"
    and "(1 - 2 * y\<^sup>2 - 2 * z\<^sup>2) * (1 - 2 * y\<^sup>2 - 2 * z\<^sup>2)
         + (2 * (w * z + x * y)) * (2 * (w * z + x * y))
         + (2 * (x * z - w * y)) * (2 * (x * z - w * y)) = 1"
    and "(- (2 * (w * y + x * z))) * (1 - 2 * y\<^sup>2 - 2 * z\<^sup>2)
         + (2 * (w * x - y * z)) * (2 * (w * z + x * y))
         + (2 * x\<^sup>2 + 2 * y\<^sup>2 - 1) * (2 * (x * z - w * y)) = 0"
proof -
  show "(- (2 * (w * y + x * z))) * (- (2 * (w * y + x * z)))
         + (2 * (w * x - y * z)) * (2 * (w * x - y * z))
         + (2 * x\<^sup>2 + 2 * y\<^sup>2 - 1) * (2 * x\<^sup>2 + 2 * y\<^sup>2 - 1) = 1"
    using assms by algebra
  show "(1 - 2 * y\<^sup>2 - 2 * z\<^sup>2) * (1 - 2 * y\<^sup>2 - 2 * z\<^sup>2)
         + (2 * (w * z + x * y)) * (2 * (w * z + x * y))
         + (2 * (x * z - w * y)) * (2 * (x * z - w * y)) = 1"
    using assms by algebra
  show "(- (2 * (w * y + x * z))) * (1 - 2 * y\<^sup>2 - 2 * z\<^sup>2)
         + (2 * (w * x - y * z)) * (2 * (w * z + x * y))
         + (2 * x\<^sup>2 + 2 * y\<^sup>2 - 1) * (2 * (x * z - w * y)) = 0"
    using assms by algebra
qed

lemma unit_camera_basis:
  assumes "unitQuaternion (cam_quaternion cam)"
  shows "dot (getCameraForward cam) (getCameraForward cam) = 1"
    and "dot (getCameraRight cam) (getCameraRight cam) = 1"
    and "dot (getCameraForward cam) (getCameraRight cam) = 0"
proof -
  let ?x = "qx (cam_quaternion cam)" and ?y = "qy (cam_quaternion cam)"
  let ?z = "qz (cam_quaternion cam)" and ?w = "qw (cam_quaternion cam)"
  let ?F = "Vector3 (- (2 * (?w * ?y + ?x * ?z))) (2 * (?w * ?x - ?y * ?z)) (2 * ?x\<^sup>2 + 2 * ?y\<^sup>2 - 1)"
  let ?R = "Vector3 (1 - 2 * ?y\<^sup>2 - 2 * ?z\<^sup>2) (2 * (?w * ?z + ?x * ?y)) (2 * (?x * ?z - ?w * ?y))"
  have u: "?x\<^sup>2 + ?y\<^sup>2 + ?z\<^sup>2 + ?w\<^sup>2 = 1"
    using assms by (simp add: unitQuaternion_def)
  have aF: "applyQuaternion (Vector3 0 0 (- 1)) (cam_quaternion cam) = ?F"
    by (simp add: applyQuaternion_def Let_def power2_eq_square algebra_simps)
  have aR: "applyQuaternion (Vector3 1 0 0) (cam_quaternion cam) = ?R"
    by (simp add: applyQuaternion_def Let_def power2_eq_square algebra_simps)
  have FF: "dot ?F ?F = 1" unfolding dot_def vec3_sel by (rule unit_poly(1) [OF u])
  have RR: "dot ?R ?R = 1" unfolding dot_def vec3_sel by (rule unit_poly(2) [OF u])
  have FR: "dot ?F ?R = 0" unfolding dot_def vec3_sel by (rule unit_poly(3) [OF u])
  have lF: "vlength ?F = 1" unfolding vlength_dot FF by simp
  have lR: "vlength ?R = 1" unfolding vlength_dot RR by simp
  have f: "getCameraForward cam = ?F"
    unfolding getCameraForward_def aF by (rule normalize_unit [OF lF])
  have r: "getCameraRight cam = ?R"
    unfolding getCameraRight_def aR by (rule normalize_unit [OF lR])
  show "dot (getCameraForward cam) (getCameraForward cam) = 1" unfolding f by (rule FF)
  show "dot (getCameraRight cam) (getCameraRight cam) = 1" unfolding r by (rule RR)
  show "dot (getCameraForward cam) (getCameraRight cam) = 0" unfolding f r by (rule FR)
qed

lemma horizontal_part:
  "vsub v (multiplyScalar worldUp (dot v worldUp)) = Vector3 (vx v) 0 (vz v)"
  by (simp add: vsub_def multiplyScalar_def worldUp_def dot_def)

lemma vy_normalize: "vy v = 0 \<Longrightarrow> vy (normalize v) = 0"
  by (simp add: normalize_def divideScalar_def multiplyScalar_def)

lemma vlength_zero_iff: "vlength v = 0 \<longleftrightarrow> vx v = 0 \<and> vy v = 0 \<and> vz v = 0"
proof -
  have "vx v * vx v + vy v * vy v + vz v * vz v = 0 \<longleftrightarrow> vx v = 0 \<and> vy v = 0 \<and> vz v = 0"
    by (simp add: add_nonneg_eq_0_iff)
  then show ?thesis by (simp add: vlength_def)
qed

lemma right_horizontal_nonzero:
  assumes ff: "dot f f = 1" and rr: "dot r r = 1" and fr: "dot f r = 0"
    and small: "\<not> vlength (Vector3 (vx f) 0 (vz f)) > 0.0001"
  shows "vlength (Vector3 (vx r) 0 (vz r)) \<noteq> 0"
proof
  assume "vlength (Vector3 (vx r) 0 (vz r)) = 0"
  then have r0: "vx r = 0" "vz r = 0" by (simp_all add: vlength_zero_iff)
  with rr have "vy r * vy r = 1" by (simp add: dot_def)
  then have "vy r \<noteq> 0" by auto
  moreover from fr r0 have "vy f * vy r = 0" by (simp add: dot_def)
  ultimately have "vy f = 0" by simp
  with ff have "vx f * vx f + vz f * vz f = 1" by (simp add: dot_def)
  then have "vlength (Vector3 (vx f) 0 (vz f)) = 1" by (simp add: vlength_def)
  with small show False by simp
qed

lemma elevated_unit:
  assumes "vlength h = 1" and "vy h = 0"
  shows "vlength (addScaledVector (addScaledVector (Vector3 0 0 0) h (cos p)) worldUp (sin p)) = 1"
proof -
  from assms have hh: "vx h * vx h + vz h * vz h = 1"
    by (simp add: vlength_def)
  have "dot (addScaledVector (addScaledVector (Vector3 0 0 0) h (cos p)) worldUp (sin p))
            (addScaledVector (addScaledVector (Vector3 0 0 0) h (cos p)) worldUp (sin p))
        = (vx h * vx h + vz h * vz h) * (cos p)\<^sup>2 + (sin p)\<^sup>2"
    using assms(2)
    by (simp add: dot_def addScaledVector_def worldUp_def power2_eq_square algebra_simps)
  then show ?thesis by (simp add: vlength_dot hh)
qed

lemma sphericalToCartesian_length:
  assumes ff: "dot (getCameraForward cam) (getCameraForward cam) = 1"
    and rr: "dot (getCameraRight cam) (getCameraRight cam) = 1"
    and fr: "dot (getCameraForward cam) (getCameraRight cam) = 0"
    and az: "directionToAzimuthAngle a = Some az"
  shows "\<exists>p. sphericalToCartesian a e d cam = Inr p \<and> vlength p = \<bar>d\<bar>"
proof -
  let ?f = "getCameraForward cam" and ?r = "getCameraRight cam"
  let ?hd = "addScaledVector (addScaledVector (Vector3 0 0 0) ?f (cos (degToRad az))) ?r
               (sin (degToRad az))"
  let ?P = "Vector3 (vx ?hd) 0 (vz ?hd)"
  let ?FH = "Vector3 (vx ?f) 0 (vz ?f)"
  let ?RH = "Vector3 (vx ?r) 0 (vz ?r)"
  define h where "h = (if vlength ?P > 0.0001 then normalize ?P
                       else if vlength ?FH > 0.0001 then normalize ?FH else normalize ?RH)"
  have h1: "vlength h = 1"
  proof (cases "vlength ?P > 0.0001")
    case True
    then show ?thesis by (simp add: h_def vlength_normalize)
  next
    case False
    note nP = this
    show ?thesis
    proof (cases "vlength ?FH > 0.0001")
      case True
      then show ?thesis using nP by (simp add: h_def vlength_normalize)
    next
      case False
      then have "vlength ?RH \<noteq> 0" by (rule right_horizontal_nonzero [OF ff rr fr])
      then show ?thesis using nP False by (simp add: h_def vlength_normalize)
    qed
  qed
  have h2: "vy h = 0" by (simp add: h_def vy_normalize)
  let ?dir = "addScaledVector (addScaledVector (Vector3 0 0 0) h (cos (degToRad e))) worldUp
                (sin (degToRad e))"
  have dl: "vlength ?dir = 1" using h1 h2 by (rule elevated_unit)
  have dn: "normalize ?dir = ?dir" using dl by (rule normalize_unit)
  have "sphericalToCartesian a e d cam = Inr (multiplyScalar (normalize ?dir) d)"
    by (simp add: sphericalToCartesian_def az Let_def horizontal_part h_def)
  moreover have "vlength (multiplyScalar (normalize ?dir) d) = \<bar>d\<bar>"
    by (simp add: dn vlength_multiplyScalar dl)
  ultimately show ?thesis by blast
qed

section \<open>The round trip: what holds and what does not\<close>

lemma defaultCamera_basis:
  "getCameraForward defaultCamera = Vector3 0 0 (- 1)"
  "getCameraRight defaultCamera = Vector3 1 0 0"
  using yaw_forward [of defaultCamera] yaw_right [of defaultCamera]
  by (simp_all add: defaultCamera_def)

lemma defaultCamera_level:
  "levelBasis (getCameraForward defaultCamera) (getCameraRight defaultCamera)"
  by (rule yaw_levelBasis) (simp_all add: defaultCamera_def)

text \<open>Computed without rounding, the round trip of a camera rotated about the world up
  axis only returns the angles and the distance themselves, as long as the elevation and
  the distance stay above the two thresholds of the code.\<close>

lemma roundTrip_yaw_exact:
  assumes "qx (cam_quaternion cam) = 0" and "qz (cam_quaternion cam) = 0"
    and "(qy (cam_quaternion cam))\<^sup>2 + (qw (cam_quaternion cam))\<^sup>2 = 1"
    and "0 \<le> a" and "a < 360"
    and "0 \<le> e" and "e \<le> 90" and "0.0001 < cos (degToRad e)"
    and "0.0001 \<le> d"
  shows "roundTrip (DNum a) e d cam = Inr \<lparr>azimuth = a, elevation = e, distance = d\<rparr>"
proof -
  have lb: "levelBasis (getCameraForward cam) (getCameraRight cam)"
    using assms(1-3) by (rule yaw_levelBasis)
  from assms(6) have "- 90 \<le> e" by simp
  with lb assms show ?thesis by (intro roundTrip_level) auto
qed



lemma cartesianToSpherical_overhead:
  "cartesianToSpherical 0 1 0 cam = \<lparr>azimuth = 0, elevation = 90, distance = 1\<rparr>"
proof -
  have l: "vlength (Vector3 0 1 0) = 1" by (simp add: vlength_def)
  have n: "normalize (Vector3 0 1 0) = Vector3 0 1 0" using l by (rule normalize_unit)
  have h: "vsub (Vector3 0 1 0) (multiplyScalar worldUp 1) = Vector3 0 0 0"
    by (simp add: vsub_def multiplyScalar_def worldUp_def)
  have z: "vlength (Vector3 0 0 0) = 0" by (simp add: vlength_def)
  have d: "dot (Vector3 0 1 0) worldUp = 1" by (simp add: dot_def worldUp_def)
  show ?thesis
    by (simp add: cartesianToSpherical_def Let_def l n d h z radToDeg_def)
qed


text \<open>A distance below the threshold reads back as the pivot, whatever the angles.\<close>

lemma roundTrip_below_threshold:
  assumes lb: "levelBasis (getCameraForward cam) (getCameraRight cam)"
    and az: "directionToAzimuthAngle a = Some az"
    and d: "\<bar>d\<bar> < 0.0001"
  shows "roundTrip a e d cam = Inr \<lparr>azimuth = 0, elevation = 0, distance = 0\<rparr>"
proof -
  let ?dir = "levelDirection (getCameraForward cam) (getCameraRight cam) (degToRad az) (degToRad e)"
  have "vlength ?dir = 1"
    by (simp add: vlength_dot levelDirection_dot [OF lb])
  then have "vlength (multiplyScalar ?dir d) < 0.0001"
    using d by (simp add: vlength_multiplyScalar)
  then show ?thesis
    unfolding roundTrip_def sphericalToCartesian_level [OF lb az]
    by (simp add: cartesianToSpherical_def Let_def)
qed

lemma roundTrip_tiny_distance:
  "roundTrip (DNum 0) 45 0.00001 defaultCamera = Inr \<lparr>azimuth = 0, elevation = 0, distance = 0\<rparr>"
  by (rule roundTrip_below_threshold [OF defaultCamera_level, of _ 0])
     (simp_all add: directionToAzimuthAngle_def js_rem_small)

lemma vlength_axes:
  "vlength (Vector3 x 0 0) = \<bar>x\<bar>" "vlength (Vector3 0 y 0) = \<bar>y\<bar>" "vlength (Vector3 0 0 z) = \<bar>z\<bar>"
  by (simp_all add: vlength_def)

lemma downwardCamera_basis:
  "getCameraForward downwardCamera = Vector3 0 (- 1) 0"
  "getCameraRight downwardCamera = Vector3 1 0 0"
proof -
  have "applyQuaternion (Vector3 0 0 (- 1)) (cam_quaternion downwardCamera) = Vector3 0 (- 1) 0"
    by (simp add: applyQuaternion_def downwardCamera_def Let_def)
  then show "getCameraForward downwardCamera = Vector3 0 (- 1) 0"
    by (simp add: getCameraForward_def normalize_unit vlength_axes)
  have "applyQuaternion (Vector3 1 0 0) (cam_quaternion downwardCamera) = Vector3 1 0 0"
    by (simp add: applyQuaternion_def downwardCamera_def Let_def)
  then show "getCameraRight downwardCamera = Vector3 1 0 0"
    by (simp add: getCameraRight_def normalize_unit vlength_axes)
qed

text \<open>For a camera that is not level the round trip fails as well: seen from straight
  above, azimuth 0 at the horizon reads back as azimuth 90.\<close>

lemma roundTrip_downwardCamera:
  "roundTrip (DNum 0) 0 1 downwardCamera = Inr \<lparr>azimuth = 90, elevation = 0, distance = 1\<rparr>"
proof -
  have az: "directionToAzimuthAngle (DNum 0) = Some 0"
    by (simp add: directionToAzimuthAngle_def js_rem_small)
  have p: "sphericalToCartesian (DNum 0) 0 1 downwardCamera = Inr (Vector3 1 0 0)"
    by (simp add: sphericalToCartesian_def az Let_def downwardCamera_basis degToRad_values
        addScaledVector_def dot_def worldUp_def vsub_def multiplyScalar_def vlength_axes
        normalize_unit)
  have c: "cartesianToSpherical 1 0 0 downwardCamera = \<lparr>azimuth = 90, elevation = 0, distance = 1\<rparr>"
    by (simp add: cartesianToSpherical_def Let_def downwardCamera_basis
        dot_def worldUp_def vsub_def multiplyScalar_def vlength_axes normalize_unit
        Math_atan2_def radToDeg_def)
  show ?thesis by (simp add: roundTrip_def p c)
qed

section \<open>Lights: distance and dolly\<close>

lemma distance_cartesianToSpherical:
  "distance (cartesianToSpherical x y z cam) =
     (if vlength (Vector3 x y z) < 0.0001 then 0 else vlength (Vector3 x y z))"
  by (simp add: cartesianToSpherical_def Let_def)

lemma unit_camera_length:
  assumes "unitQuaternion (cam_quaternion cam)" and "directionToAzimuthAngle a = Some az"
  shows "\<exists>p. sphericalToCartesian a e d cam = Inr p \<and> vlength p = \<bar>d\<bar>"
  using unit_camera_basis [OF assms(1)] assms(2) by (rule sphericalToCartesian_length)



lemma dolly_position:
  assumes al: "areaLight l = Some al" and g: "parentGroup l = Some g"
    and far: "0.0001 < vlength (position al)"
  shows "\<exists>al'. areaLight (dolly L delta l) = Some al' \<and> parentGroup (dolly L delta l) = Some g \<and>
           position al' = multiplyScalar (normalize (position al)) (vlength (position al) + delta)"
proof -
  let ?p = "position al"
  from far have nz: "vlength ?p \<noteq> 0" by simp
  have "vadd ?p (multiplyScalar (normalize ?p) delta)
        = multiplyScalar (normalize ?p) (vlength ?p + delta)"
    using nz
    by (intro vec3_eqI)
       (simp_all add: vadd_def multiplyScalar_def normalize_def divideScalar_def field_simps)
  then show ?thesis
    using far by (simp add: dolly_def al g Let_def lookAtTarget_def)
qed


lemma lightAt_fields:
  "areaLight (lightAt x y z) = Some \<lparr>position = Vector3 x y z, orientation = ()\<rparr>"
  "parentGroup (lightAt x y z) =
     Some \<lparr>group_position = MODEL_ORIGIN, rotation_x = 0, rotation_y = 0\<rparr>"
  by (simp_all add: lightAt_def setPositionCartesian_def AreaLight_new_def Let_def
      lookAtTarget_def)

lemma unitQuaternion_defaultCamera: "unitQuaternion (cam_quaternion defaultCamera)"
  by (simp add: unitQuaternion_def defaultCamera_def)

lemma azimuth_in_range: "0 \<le> a \<Longrightarrow> a < 360 \<Longrightarrow> directionToAzimuthAngle (DNum a) = Some a"
  by (simp add: directionToAzimuthAngle_def js_rem_small)





lemma dolly_z_axis:
  assumes "0.0001 < \<bar>z\<bar>"
  shows "dolly plainLookAt delta (lightAt 0 0 z) = lightAt 0 0 (z + sgn z * delta)"
proof -
  have n: "normalize (Vector3 0 0 z) = Vector3 0 0 (sgn z)"
    using assms
    by (simp add: normalize_def divideScalar_def multiplyScalar_def vlength_axes sgn_real_def)
  show ?thesis
    using assms
    by (simp add: dolly_def lightAt_def setPositionCartesian_def AreaLight_new_def Let_def
        lookAtTarget_def vlength_axes n vadd_def multiplyScalar_def plainLookAt_def)
qed


text \<open>A light reaches the pivot through \<^verbatim>\<open>setDistance(0)\<close>, from any position and
  for any camera.\<close>

lemma sphericalToCartesian_zero:
  assumes "directionToAzimuthAngle a = Some az"
  shows "sphericalToCartesian a e 0 cam = Inr (Vector3 0 0 0)"
  using assms by (simp add: sphericalToCartesian_def Let_def multiplyScalar_def)

lemma setDistance_zero:
  assumes "areaLight l = Some al" and "parentGroup l = Some g"
  shows "\<exists>l' al'. setDistance L 0 (Some cam) l = Inr l' \<and> areaLight l' = Some al' \<and>
           position al' = Vector3 0 0 0"
proof -
  have "directionToAzimuthAngle (DNum (azimuth (getPositionSpherical (Some cam) l))) \<noteq> None"
    by (simp add: directionToAzimuthAngle_def Let_def)
  then obtain az where
    "directionToAzimuthAngle (DNum (azimuth (getPositionSpherical (Some cam) l))) = Some az"
    by blast
  then show ?thesis
    using assms by (simp add: setDistance_def Let_def sphericalToCartesian_zero lookAtTarget_def)
qed

section \<open>Moving toward a direction\<close>

lemma js_rem_plus:
  assumes "0 \<le> a" "a < m" 
  shows "js_rem (a + m) m = a" "js_rem (a + 2 * m) m = a"
proof -
  from assms have m: "0 < m" by simp
  have q1: "(a + m) / m = a / m + 1" using m by (simp add: field_simps)
  have q2: "(a + 2 * m) / m = a / m + 2" using m by (simp add: field_simps)
  have r: "0 \<le> a / m" "a / m < 1" using assms m by simp_all
  then have f0: "\<lfloor>a / m\<rfloor> = 0" by linarith
  have f1: "\<lfloor>a / m + 1\<rfloor> = 1" using f0 by linarith
  have f2: "\<lfloor>a / m + 2\<rfloor> = 2" using f0 by linarith
  show "js_rem (a + m) m = a"
    using r by (simp add: js_rem_def q1 f1)
  show "js_rem (a + 2 * m) m = a"
    using r by (simp add: js_rem_def q2 f2)
qed

lemma wrappedDiff_cases:
  assumes "0 \<le> t" "t < 360" "0 \<le> c" "c < 360"
  shows "- 180 \<le> wrappedDiff t c \<and> wrappedDiff t c \<le> 180 \<and>
         (wrappedDiff t c = t - c \<or> wrappedDiff t c = t - c - 360 \<or> wrappedDiff t c = t - c + 360)"
  using assms by (auto simp add: wrappedDiff_def Let_def)

text \<open>For a target and a current azimuth in \<open>[0, 360)\<close> the difference is wrapped into
  \<open>[-180, 180]\<close>, and a step of at least its size lands on the target.\<close>

lemma movedAzimuth_lands:
  assumes t: "0 \<le> t" "t < 360" and c: "0 \<le> c" "c < 360"
    and deg: "\<bar>wrappedDiff t c\<bar> \<le> deg"
  shows "movedAzimuth t deg c = t"
proof -
  let ?d = "wrappedDiff t c"
  have m: "sgn ?d * min \<bar>?d\<bar> deg = ?d"
    using deg by (simp add: min_def sgn_real_def abs_real_def)
  from wrappedDiff_cases [OF t c]
  consider "?d = t - c" | "?d = t - c - 360" | "?d = t - c + 360" by blast
  then have "js_rem (c + ?d + 360) 360 = t"
  proof cases
    case 1
    then have "c + ?d + 360 = t + 360" by simp
    then show ?thesis using js_rem_plus(1) [OF t] by (simp add: add.commute)
  next
    case 2
    then have "c + ?d + 360 = t" by simp
    then show ?thesis using js_rem_small [OF t] by simp
  next
    case 3
    then have "c + ?d + 360 = t + 2 * 360" by simp
    then show ?thesis using js_rem_plus(2) [OF t] by (simp add: add.commute)
  qed
  then show ?thesis by (simp add: movedAzimuth_def Let_def m)
qed

lemma movedAzimuth_scenario:
  "movedAzimuth 200 10 190 = 200" "movedAzimuth 200 50 190 = 200"
  by (rule movedAzimuth_lands; simp add: wrappedDiff_def)+

lemma movedAzimuth_900: "movedAzimuth 900 10 180 = 190"
proof -
  have "wrappedDiff 900 180 = 360" by (simp add: wrappedDiff_def)
  moreover have "js_rem (190 + 360) 360 = 190" by (rule js_rem_plus) simp_all
  ultimately show ?thesis by (simp add: movedAzimuth_def Let_def)
qed

lemma directionToAzimuthAngle_name: "directionToAzimuthAngle (DStr ''North-West'') = Some 315"
  by (simp add: directionToAzimuthAngle_def normalizeDirectionName_def toLowerChar_def
      trim_def isSpace_def directionToAzimuth_def)

lemma parseDigits_900: "parseDigits ''900'' = Some 900"
  by (simp add: parseDigits_def isDigit_def digitValue_def)

lemma setPositionSpherical_readBack:
  assumes al: "areaLight l = Some al" and g: "parentGroup l = Some g"
    and lb: "levelBasis (getCameraForward cam) (getCameraRight cam)"
    and a: "0 \<le> a" "a < 360"
    and e: "- 90 \<le> e" "e \<le> 90" "0.0001 < cos (degToRad e)"
    and far: "0.0001 < vlength (position al)"
  shows "readBack (Some cam) (setPositionSpherical L (DNum a) e (Some cam) l)
         = Inr \<lparr>azimuth = a, elevation = e, distance = vlength (position al)\<rparr>"
proof -
  let ?D = "vlength (position al)"
  from far have d: "0.0001 \<le> ?D" by simp
  have rt: "roundTrip (DNum a) e ?D cam = Inr \<lparr>azimuth = a, elevation = e, distance = ?D\<rparr>"
    using lb a e d by (rule roundTrip_level)
  then obtain p where p: "sphericalToCartesian (DNum a) e ?D cam = Inr p"
    and c: "cartesianToSpherical (vx p) (vy p) (vz p) cam
            = \<lparr>azimuth = a, elevation = e, distance = ?D\<rparr>"
    by (auto simp add: roundTrip_def split: sum.splits)
  show ?thesis
    using far
    by (simp add: readBack_def setPositionSpherical_def al g p getPositionSpherical_def
        lookAtTarget_def Let_def c)
qed

lemma moveTowardDirection_number:
  assumes al: "areaLight l = Some al" and g: "parentGroup l = Some g"
  shows "moveTowardDirection L pf (DNum t) deg (Some cam) l =
           setPositionSpherical L
             (DNum (movedAzimuth (the (directionToAzimuthAngle (DNum t))) (orDefault 10 deg)
                      (azimuth (getPositionSpherical (Some cam) l))))
             (elevation (getPositionSpherical (Some cam) l)) (Some cam) l"
  by (simp add: moveTowardDirection_def lightReady_def al g Let_def directionToAzimuthAngle_def)

lemma moveTowardDirection_lands:
  assumes al: "areaLight l = Some al" and g: "parentGroup l = Some g"
    and lb: "levelBasis (getCameraForward cam) (getCameraRight cam)"
    and cur: "getPositionSpherical (Some cam) l = \<lparr>azimuth = c, elevation = e, distance = D\<rparr>"
    and c: "0 \<le> c" "c < 360"
    and e: "- 90 \<le> e" "e \<le> 90" "0.0001 < cos (degToRad e)"
    and far: "0.0001 < vlength (position al)"
    and t: "0 \<le> t" "t < 360"
    and deg: "\<bar>wrappedDiff t c\<bar> \<le> deg"
  shows "readBack (Some cam) (moveTowardDirection L pf (DNum t) (Some deg) (Some cam) l)
         = Inr \<lparr>azimuth = t, elevation = e, distance = vlength (position al)\<rparr>"
proof -
  have "movedAzimuth t deg c = t" using t c deg by (rule movedAzimuth_lands)
  then have "moveTowardDirection L pf (DNum t) (Some deg) (Some cam) l
             = setPositionSpherical L (DNum t) e (Some cam) l"
    using t by (simp add: moveTowardDirection_number [OF al g] azimuth_in_range cur orDefault_def)
  then show ?thesis
    using setPositionSpherical_readBack [OF al g lb t e far] by simp
qed

lemma lightAtSpherical_reads:
  assumes a: "0 \<le> a" "a < 360"
    and e: "- 90 \<le> e" "e \<le> 90" "0.0001 < cos (degToRad e)"
    and d: "0.0001 \<le> d"
  shows "\<exists>al. areaLight (lightAtSpherical a e d) = Some al \<and> vlength (position al) = d \<and>
           parentGroup (lightAtSpherical a e d) =
             Some \<lparr>group_position = MODEL_ORIGIN, rotation_x = 0, rotation_y = 0\<rparr> \<and>
           getPositionSpherical (Some defaultCamera) (lightAtSpherical a e d)
             = \<lparr>azimuth = a, elevation = e, distance = d\<rparr>"
proof -
  have rt: "roundTrip (DNum a) e d defaultCamera = Inr \<lparr>azimuth = a, elevation = e, distance = d\<rparr>"
    using defaultCamera_level a e d by (rule roundTrip_level)
  then obtain p where p: "sphericalToCartesian (DNum a) e d defaultCamera = Inr p"
    and c: "cartesianToSpherical (vx p) (vy p) (vz p) defaultCamera
            = \<lparr>azimuth = a, elevation = e, distance = d\<rparr>"
    by (auto simp add: roundTrip_def split: sum.splits)
  have "distance (cartesianToSpherical (vx p) (vy p) (vz p) defaultCamera) = d"
    by (simp add: c)
  then have "vlength p = d"
    using d by (simp add: distance_cartesianToSpherical split: if_splits)
  then show ?thesis
    by (simp add: lightAtSpherical_def p lightAt_fields getPositionSpherical_def Let_def c)
qed

lemma cos_60_degrees: "cos (degToRad 60) = 1 / 2"
proof -
  have "degToRad 60 = pi / 3" by (simp add: degToRad_def)
  then show ?thesis by (simp only: cos_60)
qed

text \<open>The scenario of the claim for a numeric target: from azimuth 190 toward 200 the
  light lands on 200, with 10 degrees and with 50.\<close>

lemma moveTowardDirection_scenario:
  "readBack (Some defaultCamera)
     (moveTowardDirection plainLookAt pf (DNum 200) (Some 10) (Some defaultCamera)
        (lightAtSpherical 190 60 5))
   = Inr \<lparr>azimuth = 200, elevation = 60, distance = 5\<rparr>"
  "readBack (Some defaultCamera)
     (moveTowardDirection plainLookAt pf (DNum 200) (Some 50) (Some defaultCamera)
        (lightAtSpherical 190 60 5))
   = Inr \<lparr>azimuth = 200, elevation = 60, distance = 5\<rparr>"
proof -
  have c60: "(0.0001::real) < cos (degToRad 60)" by (simp add: cos_60_degrees)
  obtain al where al: "areaLight (lightAtSpherical 190 60 5) = Some al"
    and l: "vlength (position al) = 5"
    and g: "parentGroup (lightAtSpherical 190 60 5) =
              Some \<lparr>group_position = MODEL_ORIGIN, rotation_x = 0, rotation_y = 0\<rparr>"
    and cur: "getPositionSpherical (Some defaultCamera) (lightAtSpherical 190 60 5)
              = \<lparr>azimuth = 190, elevation = 60, distance = 5\<rparr>"
    using lightAtSpherical_reads [of 190 60 5] c60 by auto
  have far: "0.0001 < vlength (position al)" by (simp add: l)
  have w: "\<bar>wrappedDiff 200 190\<bar> \<le> 10" "\<bar>wrappedDiff 200 190\<bar> \<le> 50"
    by (simp_all add: wrappedDiff_def)
  show "readBack (Some defaultCamera)
     (moveTowardDirection plainLookAt pf (DNum 200) (Some 10) (Some defaultCamera)
        (lightAtSpherical 190 60 5))
   = Inr \<lparr>azimuth = 200, elevation = 60, distance = 5\<rparr>"
    using moveTowardDirection_lands [OF al g defaultCamera_level cur _ _ _ _ c60 far _ _ w(1)]
    by (simp add: l)
  show "readBack (Some defaultCamera)
     (moveTowardDirection plainLookAt pf (DNum 200) (Some 50) (Some defaultCamera)
        (lightAtSpherical 190 60 5))
   = Inr \<lparr>azimuth = 200, elevation = 60, distance = 5\<rparr>"
    using moveTowardDirection_lands [OF al g defaultCamera_level cur _ _ _ _ c60 far _ _ w(2)]
    by (simp add: l)
qed

lemma lightAt_z_reads:
  "getPositionSpherical (Some defaultCamera) (lightAt 0 0 1)
     = \<lparr>azimuth = 180, elevation = 0, distance = 1\<rparr>"
  by (simp add: getPositionSpherical_def lightAt_fields Let_def cartesianToSpherical_def
      defaultCamera_basis dot_def worldUp_def vsub_def multiplyScalar_def vlength_axes
      normalize_unit Math_atan2_def radToDeg_def)

text \<open>
  Claim C4, where the code departs from it. The key light is at azimuth 180. The target is
  the string \<^verbatim>\<open>"900"\<close>, which is no direction name, so the code falls back to
  \<^verbatim>\<open>parseFloat\<close> and uses 900 as it is. The difference \<open>900 - 180 = 720\<close> is reduced
  once, to 360, which is outside \<open>[-180, 180]\<close>, and the light moves by 10 degrees to
  azimuth 190, although the target, 900 degrees, is the azimuth 180 where it already was.
\<close>

theorem moveTowardDirection_numeric_string:
  "getPositionSpherical (Some defaultCamera) (lightAt 0 0 1)
     = \<lparr>azimuth = 180, elevation = 0, distance = 1\<rparr> \<and>
   directionToAzimuthAngle (DStr ''900'') = None \<and> parseDigits ''900'' = Some 900 \<and>
   wrappedDiff 900 180 = 360 \<and>
   readBack (Some defaultCamera)
     (moveTowardDirection plainLookAt parseDigits (DStr ''900'') (Some 10) (Some defaultCamera)
        (lightAt 0 0 1))
   = Inr \<lparr>azimuth = 190, elevation = 0, distance = 1\<rparr>"
proof -
  have none: "directionToAzimuthAngle (DStr ''900'') = None"
    by (simp add: directionToAzimuthAngle_def normalizeDirectionName_def toLowerChar_def
        trim_def isSpace_def directionToAzimuth_def)
  have "moveTowardDirection plainLookAt parseDigits (DStr ''900'') (Some 10) (Some defaultCamera)
          (lightAt 0 0 1)
        = setPositionSpherical plainLookAt (DNum 190) 0 (Some defaultCamera) (lightAt 0 0 1)"
    by (simp add: moveTowardDirection_def lightReady_def lightAt_fields Let_def none
        parseDigits_900 lightAt_z_reads orDefault_def movedAzimuth_900)
  moreover have "readBack (Some defaultCamera)
      (setPositionSpherical plainLookAt (DNum 190) 0 (Some defaultCamera) (lightAt 0 0 1))
      = Inr \<lparr>azimuth = 190, elevation = 0,
              distance = vlength (position \<lparr>position = Vector3 0 0 1, orientation = ()\<rparr>)\<rparr>"
    by (rule setPositionSpherical_readBack [OF lightAt_fields(1) lightAt_fields(2)
          defaultCamera_level])
       (simp_all add: degToRad_values vlength_axes)
  moreover have "wrappedDiff 900 180 = 360" by (simp add: wrappedDiff_def)
  ultimately show ?thesis by (simp add: lightAt_z_reads vlength_axes none parseDigits_900)
qed

text \<open>The same target given as the number 900 is first reduced to 180, and the light stays.\<close>

lemma moveTowardDirection_number_900:
  "readBack (Some defaultCamera)
     (moveTowardDirection plainLookAt pf (DNum 900) (Some 10) (Some defaultCamera) (lightAt 0 0 1))
   = Inr \<lparr>azimuth = 180, elevation = 0, distance = 1\<rparr>"
proof -
  have "js_rem 900 360 = 180" by (simp add: js_rem_def)
  then have n: "directionToAzimuthAngle (DNum 900) = Some 180"
    by (simp add: directionToAzimuthAngle_def)
  have m: "movedAzimuth 180 10 180 = 180"
    by (rule movedAzimuth_lands) (simp_all add: wrappedDiff_def)
  have "moveTowardDirection plainLookAt pf (DNum 900) (Some 10) (Some defaultCamera) (lightAt 0 0 1)
        = setPositionSpherical plainLookAt (DNum 180) 0 (Some defaultCamera) (lightAt 0 0 1)"
    by (simp add: moveTowardDirection_def lightReady_def lightAt_fields Let_def n
        lightAt_z_reads orDefault_def m)
  moreover have "readBack (Some defaultCamera)
      (setPositionSpherical plainLookAt (DNum 180) 0 (Some defaultCamera) (lightAt 0 0 1))
      = Inr \<lparr>azimuth = 180, elevation = 0,
              distance = vlength (position \<lparr>position = Vector3 0 0 1, orientation = ()\<rparr>)\<rparr>"
    by (rule setPositionSpherical_readBack [OF lightAt_fields(1) lightAt_fields(2)
          defaultCamera_level])
       (simp_all add: degToRad_values vlength_axes)
  ultimately show ?thesis by (simp add: vlength_axes)
qed

section \<open>Unknown commands\<close>

lemma commandHandlers_unknown:
  "ty \<notin> set commandNames \<Longrightarrow> commandHandlers bodies ty = None"
  by (simp add: commandHandlers_def map_of_eq_None_iff image_image)

lemma commandHandlers_known:
  "ty \<in> set commandNames \<Longrightarrow> commandHandlers bodies ty = Some (bodies ty)"
proof -
  have "map_of (map (\<lambda>name. (name, bodies name)) xs) ty = Some (bodies ty)" if "ty \<in> set xs" for xs
    using that by (induction xs) auto
  then show "ty \<in> set commandNames \<Longrightarrow> commandHandlers bodies ty = Some (bodies ty)"
    by (simp add: commandHandlers_def)
qed

text \<open>
  Claim C5. A command whose type is a string that is not a key of the handler map does not
  raise, and the application afterwards is the application before with one warning added
  to the console: the scene manager, the interaction mode, the hovered light and the
  connection with the snapshots sent over it are as they were. No handler runs.
\<close>

theorem unknown_command_ignored:
  assumes "cmd_type cmd = Some ty" and "ty \<notin> set commandNames"
  shows "handleWebSocketCommand bodies getSceneState cmd app =
           Inr (app\<lparr>console := console app @ [Warn ''Unknown command type:'' ty]\<rparr>)"
  using assms by (simp add: handleWebSocketCommand_def commandHandlers_unknown Let_def)

lemma doSomethingUnknown_not_a_command: "''doSomethingUnknown'' \<notin> set commandNames"
  by (simp add: commandNames_def)

text \<open>
  The theorem for \<^verbatim>\<open>{type: "doSomethingUnknown"}\<close> on a connected application.
\<close>

theorem unknown_command_ignored_witness:
  "handleWebSocketCommand (\<lambda>name cmd app. Inr app) (\<lambda>app. ())
     \<lparr>cmd_type = Some ''doSomethingUnknown'', cmd_fields = ()\<rparr> connectedApp
   = Inr (connectedApp
            \<lparr>console := console connectedApp
                          @ [Warn ''Unknown command type:'' ''doSomethingUnknown'']\<rparr>)"
  using unknown_command_ignored
    [where cmd = "\<lparr>cmd_type = Some ''doSomethingUnknown'', cmd_fields = ()\<rparr>"
       and ty = "''doSomethingUnknown''" and bodies = "\<lambda>name cmd app. Inr app"
       and getSceneState = "\<lambda>app. ()" and app = connectedApp,
     OF _ doSomethingUnknown_not_a_command]
  by simp

text \<open>For contrast, a known mutating command runs its handler and pushes a snapshot.\<close>

lemma known_command_pushes:
  assumes "cmd_type cmd = Some ''dollyCamera''" and "bodies ''dollyCamera'' cmd app = Inr app'"
  shows "handleWebSocketCommand bodies getSceneState cmd app = Inr (sendStateUpdate getSceneState app')"
proof -
  have "''dollyCamera'' \<in> set commandNames" by (simp add: commandNames_def)
  then have "commandHandlers bodies ''dollyCamera'' = Some (bodies ''dollyCamera'')"
    by (rule commandHandlers_known)
  with assms show ?thesis
    by (simp add: handleWebSocketCommand_def Let_def)
qed

section \<open>Every mutation ends facing the target\<close>

lemma facesTarget_new: "facesTarget L (AreaLight_new L ty)"
  by (simp add: facesTarget_def AreaLight_new_def Let_def)

lemma facesTarget_moved:
  "facesTarget L (l\<lparr>areaLight := Some (lookAtTarget L l (al\<lparr>position := p\<rparr>))\<rparr>)"
  by (simp add: facesTarget_def lookAtTarget_def)

lemma facesTarget_setPositionSpherical:
  assumes "facesTarget L l" and "setPositionSpherical L a e cam l = Inr l'"
  shows "facesTarget L l'"
  using assms
  by (auto simp add: setPositionSpherical_def Let_def facesTarget_moved
      split: option.splits sum.splits)

lemma facesTarget_setDistance:
  assumes "facesTarget L l" and "setDistance L d cam l = Inr l'"
  shows "facesTarget L l'"
  using assms
  by (auto simp add: setDistance_def Let_def facesTarget_moved
      split: option.splits sum.splits)

lemma facesTarget_setPositionCartesian:
  assumes "facesTarget L l"
  shows "facesTarget L (setPositionCartesian L x y z l)"
  using assms
  by (auto simp add: setPositionCartesian_def facesTarget_moved split: option.splits)

lemma facesTarget_dolly:
  assumes "facesTarget L l"
  shows "facesTarget L (dolly L delta l)"
  using assms
  by (auto simp add: dolly_def Let_def facesTarget_moved split: option.splits)

lemma facesTarget_rotate:
  assumes "facesTarget L l" and "rotate L dx dy l = Inr l'"
  shows "facesTarget L l'"
  using assms
  by (auto simp add: rotate_def Let_def facesTarget_def lookAtTarget_def
      split: option.splits)

lemma facesTarget_step:
  assumes "facesTarget L l" and "lightStep L pf cam l op = Inr l'"
  shows "facesTarget L l'"
proof (cases op)
  case (SetPositionSpherical a e)
  with assms show ?thesis by (auto intro: facesTarget_setPositionSpherical)
next
  case (SetDistance d)
  with assms show ?thesis by (auto intro: facesTarget_setDistance)
next
  case (SetPositionCartesian x y z)
  with assms show ?thesis by (auto intro: facesTarget_setPositionCartesian)
next
  case (Dolly delta)
  with assms show ?thesis by (auto intro: facesTarget_dolly)
next
  case (Rotate dx dy)
  with assms show ?thesis by (auto intro: facesTarget_rotate)
next
  case (RotateClockwise d)
  with assms show ?thesis
    by (auto simp add: rotateClockwise_def Let_def
        intro: facesTarget_setPositionSpherical split: if_splits)
next
  case (RotateCounterclockwise d)
  with assms show ?thesis
    by (auto simp add: rotateCounterclockwise_def Let_def
        intro: facesTarget_setPositionSpherical split: if_splits)
next
  case (NudgeElevationUp d)
  with assms show ?thesis
    by (auto simp add: nudgeElevationUp_def Let_def
        intro: facesTarget_setPositionSpherical split: if_splits)
next
  case (NudgeElevationDown d)
  with assms show ?thesis
    by (auto simp add: nudgeElevationDown_def Let_def
        intro: facesTarget_setPositionSpherical split: if_splits)
next
  case (MoveTowardDirection t d)
  with assms show ?thesis
    by (auto simp add: moveTowardDirection_def Let_def
        intro: facesTarget_setPositionSpherical split: if_splits option.splits)
qed

lemma facesTarget_apply: "facesTarget L l \<Longrightarrow> facesTarget L (lightApply L pf cam l op)"
  by (auto simp add: lightApply_def split: sum.splits intro: facesTarget_step)

lemma facesTarget_foldl:
  "facesTarget L l \<Longrightarrow> facesTarget L (foldl (lightApply L pf cam) l ops)"
  by (induction ops arbitrary: l) (simp_all add: facesTarget_apply)

text \<open>
  Claim C7. Start from a new key or fill light and run any sequence of position mutations
  (\<^verbatim>\<open>setPositionSpherical\<close>, \<^verbatim>\<open>setDistance\<close>, \<^verbatim>\<open>setPositionCartesian\<close>,
  \<^verbatim>\<open>dolly\<close>, \<^verbatim>\<open>rotate\<close>, \<^verbatim>\<open>rotateClockwise\<close>, \<^verbatim>\<open>rotateCounterclockwise\<close>,
  \<^verbatim>\<open>nudgeElevationUp\<close>, \<^verbatim>\<open>nudgeElevationDown\<close>, \<^verbatim>\<open>moveTowardDirection\<close>) with any
  arguments and any camera. Afterwards the orientation of the light is the one the engine's
  \<^verbatim>\<open>lookAt\<close> gives for the light's present position, its present parent rotation and
  its configured target.
\<close>

theorem light_faces_target: "facesTarget L (lightRun L pf cam ty ops)"
  unfolding lightRun_def by (rule facesTarget_foldl [OF facesTarget_new])

text \<open>
  The theorem for the key light and five mutations, with an engine that records the
  arguments of \<^verbatim>\<open>lookAt\<close>.
\<close>

theorem light_faces_target_witness:
  "facesTarget recordingLookAt
     (lightRun recordingLookAt (\<lambda>s. None) (Some defaultCamera) Key
        [Dolly 1, Rotate 0.1 0.2, SetPositionSpherical (DStr ''north'') 30,
         RotateClockwise None, MoveTowardDirection (DNum 200) (Some 10)])"
  by (rule light_faces_target)

section \<open>Hover and interaction mode\<close>

lemma hoverInv_init: "hoverInv (Application_init L ws)"
  by (simp add: hoverInv_def Application_init_def setCameraController_def
      SceneManager_initialize_def SceneManager_new_def createHighlightOverlay_def
      AreaLight_new_def Let_def)

lemma getHoveredAreaLight_inv:
  assumes "hoverInv app"
  shows "(case xs of [] \<Rightarrow> None | first # _ \<Rightarrow> getHoveredAreaLight (sceneManager app) first)
         = hitLight xs"
proof (cases xs)
  case Nil
  then show ?thesis by (simp add: hitLight_def)
next
  case (Cons x rest)
  with assms show ?thesis
    by (cases x)
       (auto simp add: hoverInv_def getHoveredAreaLight_def hitLight_def split: option.splits)
qed

lemma hover_step:
  assumes "hoverInv app"
  shows "hoverInv (updateAreaLightHover xs app) \<and>
         currentHoveredAreaLight (updateAreaLightHover xs app) = hitLight xs"
proof -
  obtain kl fl where k: "sm_keyLight (sceneManager app) = Some kl"
    and f: "sm_fillLight (sceneManager app) = Some fl"
    using assms by (auto simp add: hoverInv_def split: option.splits)
  show ?thesis
  proof (cases "hitLight xs = currentHoveredAreaLight app")
    case True
    with assms show ?thesis
      by (simp add: updateAreaLightHover_def getHoveredAreaLight_inv [OF assms])
  next
    case False
    with assms k f show ?thesis
      by (cases "hitLight xs"; cases "currentHoveredAreaLight app")
         (auto simp add: updateAreaLightHover_def getHoveredAreaLight_inv [OF assms] Let_def
            hoverInv_def highlightLight_def setMode_def setHighlighted_def
            split: light_ref.splits)
  qed
qed

lemma hoverInv_foldl:
  "hoverInv app \<Longrightarrow> hoverInv (foldl (\<lambda>app xs. updateAreaLightHover xs app) app steps)"
  by (induction steps arbitrary: app) (simp_all add: hover_step)

lemma hoverInv_run: "hoverInv (hoverRun L ws steps)"
  unfolding hoverRun_def by (rule hoverInv_foldl [OF hoverInv_init])

lemma hoverInv_highlighted:
  assumes "hoverInv app"
  shows "isHighlighted r app \<longleftrightarrow> currentHoveredAreaLight app = Some r"
  using assms
  by (cases r) (auto simp add: hoverInv_def isHighlighted_def split: option.splits)

text \<open>
  Claim C8. Take any state the application reaches from \<^verbatim>\<open>init\<close> by hover updates, and
  one more hover update with intersections \<open>xs\<close>. If the nearest intersection is the
  picker of a light, that light is the hovered one afterwards, the mode is
  \<^verbatim>\<open>AREA_LIGHT_MANIPULATION\<close> and that light and no other is highlighted; if there is
  no such intersection, no light is hovered, the mode is \<^verbatim>\<open>MODEL_ROTATION\<close> and no
  light is highlighted. In every reachable state the mode is \<^verbatim>\<open>AREA_LIGHT_MANIPULATION\<close>
  exactly when a light is hovered, and a light is highlighted exactly when it is the
  hovered one, so at most one is.
\<close>

theorem hover_update:
  "currentHoveredAreaLight (updateAreaLightHover xs (hoverRun L ws steps)) = hitLight xs \<and>
   currentMode (updateAreaLightHover xs (hoverRun L ws steps)) =
     (if hitLight xs = None then MODEL_ROTATION else AREA_LIGHT_MANIPULATION) \<and>
   (\<forall>r. isHighlighted r (updateAreaLightHover xs (hoverRun L ws steps)) \<longleftrightarrow> hitLight xs = Some r) \<and>
   (currentMode (hoverRun L ws steps) = AREA_LIGHT_MANIPULATION
      \<longleftrightarrow> currentHoveredAreaLight (hoverRun L ws steps) \<noteq> None) \<and>
   (\<forall>r. isHighlighted r (hoverRun L ws steps)
      \<longleftrightarrow> currentHoveredAreaLight (hoverRun L ws steps) = Some r)"
proof -
  let ?app = "updateAreaLightHover xs (hoverRun L ws steps)"
  have inv: "hoverInv ?app" and cur: "currentHoveredAreaLight ?app = hitLight xs"
    using hover_step [OF hoverInv_run, of xs L ws steps] by simp_all
  from inv cur have "currentMode ?app =
      (if hitLight xs = None then MODEL_ROTATION else AREA_LIGHT_MANIPULATION)"
    by (simp add: hoverInv_def)
  moreover have "\<forall>r. isHighlighted r ?app \<longleftrightarrow> hitLight xs = Some r"
    using hoverInv_highlighted [OF inv] cur by simp
  moreover have "currentMode (hoverRun L ws steps) = AREA_LIGHT_MANIPULATION
      \<longleftrightarrow> currentHoveredAreaLight (hoverRun L ws steps) \<noteq> None"
    using hoverInv_run [of L ws steps] by (auto simp add: hoverInv_def)
  moreover have "\<forall>r. isHighlighted r (hoverRun L ws steps)
      \<longleftrightarrow> currentHoveredAreaLight (hoverRun L ws steps) = Some r"
    using hoverInv_highlighted [OF hoverInv_run] by blast
  ultimately show ?thesis using cur by simp
qed

text \<open>
  The theorem while the pointer is over the key light, then moving onto the fill light or
  off both.
\<close>

theorem hover_update_witness:
  "currentHoveredAreaLight hoveringKey = Some KeyLightRef \<and>
   currentMode hoveringKey = AREA_LIGHT_MANIPULATION \<and>
   isHighlighted KeyLightRef hoveringKey \<and> \<not> isHighlighted FillLightRef hoveringKey \<and>
   currentHoveredAreaLight (updateAreaLightHover [FillPicker, KeyPicker] hoveringKey)
     = Some FillLightRef \<and>
   currentMode (updateAreaLightHover [FillPicker, KeyPicker] hoveringKey)
     = AREA_LIGHT_MANIPULATION \<and>
   isHighlighted FillLightRef (updateAreaLightHover [FillPicker, KeyPicker] hoveringKey) \<and>
   \<not> isHighlighted KeyLightRef (updateAreaLightHover [FillPicker, KeyPicker] hoveringKey) \<and>
   currentMode (updateAreaLightHover [] hoveringKey) = MODEL_ROTATION \<and>
   \<not> isHighlighted KeyLightRef (updateAreaLightHover [] hoveringKey) \<and>
   \<not> isHighlighted FillLightRef (updateAreaLightHover [] hoveringKey)"
proof -
  have k: "hoveringKey = updateAreaLightHover [KeyPicker] (hoverRun plainLookAt None [])"
    by (simp add: hoveringKey_def hoverRun_def)
  have "currentHoveredAreaLight hoveringKey = Some KeyLightRef"
    unfolding k
    using hover_update [of "[KeyPicker]" plainLookAt "None :: unit ws_client option" "[]"]
    by (simp add: hitLight_def)
  then show ?thesis
    using hover_update [of "[FillPicker, KeyPicker]" plainLookAt "None :: unit ws_client option"
        "[[KeyPicker]]"]
      hover_update [of "[]" plainLookAt "None :: unit ws_client option" "[[KeyPicker]]"]
    by (simp add: hitLight_def hoveringKey_def)
qed

text \<open>In every reachable state at most one light is highlighted.\<close>

lemma hover_at_most_one:
  "\<not> (isHighlighted KeyLightRef (hoverRun L ws steps) \<and>
      isHighlighted FillLightRef (hoverRun L ws steps))"
  using hoverInv_highlighted [OF hoverInv_run, of _ L ws steps] by auto

text \<open>The two scenarios from the initial state: hovering the key light's picker, then
  moving off all pickers.\<close>

lemma hover_scenario:
  "currentMode (hoverRun L ws [[KeyPicker]]) = AREA_LIGHT_MANIPULATION"
  "isHighlighted KeyLightRef (hoverRun L ws [[KeyPicker]])"
  "\<not> isHighlighted FillLightRef (hoverRun L ws [[KeyPicker]])"
  "currentMode (hoverRun L ws [[KeyPicker], []]) = MODEL_ROTATION"
  "\<not> isHighlighted r (hoverRun L ws [[KeyPicker], []])"
proof -
  have a: "hoverRun L ws [[KeyPicker]] = updateAreaLightHover [KeyPicker] (hoverRun L ws [])"
    and b: "hoverRun L ws [[KeyPicker], []] = updateAreaLightHover [] (hoverRun L ws [[KeyPicker]])"
    by (simp_all add: hoverRun_def)
  have s1: "hoverInv (hoverRun L ws [[KeyPicker]])"
    and c1: "currentHoveredAreaLight (hoverRun L ws [[KeyPicker]]) = Some KeyLightRef"
    using hover_step [OF hoverInv_run, of "[KeyPicker]" L ws "[]"]
    by (simp_all add: a hitLight_def)
  have s2: "hoverInv (hoverRun L ws [[KeyPicker], []])"
    and c2: "currentHoveredAreaLight (hoverRun L ws [[KeyPicker], []]) = None"
    using hover_step [OF hoverInv_run, of "[]" L ws "[[KeyPicker]]"]
    by (simp_all add: b hitLight_def)
  show "currentMode (hoverRun L ws [[KeyPicker]]) = AREA_LIGHT_MANIPULATION"
    using s1 c1 by (simp add: hoverInv_def)
  show "isHighlighted KeyLightRef (hoverRun L ws [[KeyPicker]])"
    using hoverInv_highlighted [OF s1] c1 by simp
  show "\<not> isHighlighted FillLightRef (hoverRun L ws [[KeyPicker]])"
    using hoverInv_highlighted [OF s1] c1 by simp
  show "currentMode (hoverRun L ws [[KeyPicker], []]) = MODEL_ROTATION"
    using s2 c2 by (simp add: hoverInv_def)
  show "\<not> isHighlighted r (hoverRun L ws [[KeyPicker], []])"
    using hoverInv_highlighted [OF s2] c2 by simp
qed

section \<open>Control methods before initialization\<close>

text \<open>
  Claim C9, where the code departs from it. A scene manager constructed with a camera, before
  \<^verbatim>\<open>setCameraController\<close> has been called: \<^verbatim>\<open>dollyCamera(10)\<close> tests
  \<^verbatim>\<open>this.camera\<close>, which is set, and then calls a method of
  \<^verbatim>\<open>this.cameraController\<close>, which is not, so it raises a TypeError instead of doing
  nothing.
\<close>

theorem dollyCamera_before_controller:
  "SceneManager_dollyCamera (Number 10) (SceneManager_new (Some defaultCamera)) = Inl TypeError"
  by (simp add: SceneManager_dollyCamera_def withCameraController_def SceneManager_new_def)

text \<open>The same holds for the other camera controls and the two camera queries; without a
  camera they do nothing and the queries return 0.\<close>

lemma camera_controls_before_controller:
  assumes "sm_camera sm \<noteq> None" and "sm_cameraController sm = None"
  shows "SceneManager_dollyCamera d sm = Inl TypeError"
    and "SceneManager_dollyCameraIn amount sm = Inl TypeError"
    and "SceneManager_dollyCameraOut amount sm = Inl TypeError"
    and "SceneManager_setCameraFOV fov sm = Inl TypeError"
    and "SceneManager_increaseCameraFOV amount sm = Inl TypeError"
    and "SceneManager_decreaseCameraFOV amount sm = Inl TypeError"
    and "SceneManager_getCameraDistance sm = Inl TypeError"
    and "SceneManager_getCameraFOV sm = Inl TypeError"
  using assms
  by (auto simp add: SceneManager_dollyCamera_def SceneManager_dollyCameraIn_def
      SceneManager_dollyCameraOut_def SceneManager_setCameraFOV_def
      SceneManager_increaseCameraFOV_def SceneManager_decreaseCameraFOV_def
      SceneManager_getCameraDistance_def SceneManager_getCameraFOV_def
      withCameraController_def split: option.splits)

lemma camera_controls_without_camera:
  assumes "sm_camera sm = None"
  shows "SceneManager_dollyCamera d sm = Inr sm"
    and "SceneManager_dollyCameraIn amount sm = Inr sm"
    and "SceneManager_dollyCameraOut amount sm = Inr sm"
    and "SceneManager_setCameraFOV fov sm = Inr sm"
    and "SceneManager_increaseCameraFOV amount sm = Inr sm"
    and "SceneManager_decreaseCameraFOV amount sm = Inr sm"
    and "SceneManager_getCameraDistance sm = Inr (Num 0)"
    and "SceneManager_getCameraFOV sm = Inr (Num 0)"
  using assms
  by (simp_all add: SceneManager_dollyCamera_def SceneManager_dollyCameraIn_def
      SceneManager_dollyCameraOut_def SceneManager_setCameraFOV_def
      SceneManager_increaseCameraFOV_def SceneManager_decreaseCameraFOV_def
      SceneManager_getCameraDistance_def SceneManager_getCameraFOV_def
      withCameraController_def)

text \<open>The light methods test the references they follow: without the light or the camera
  the query returns its default and the control does nothing.\<close>

lemma light_queries_before_initialize:
  assumes "sm_keyLight sm = None \<or> sm_camera sm = None"
  shows "getKeyLightPositionSpherical sm = \<lparr>azimuth = 0, elevation = 0, distance = 0\<rparr>"
    and "setKeyLightPositionSpherical L a e sm = Inr sm"
  using assms
  by (auto simp add: getKeyLightPositionSpherical_def setKeyLightPositionSpherical_def
      split: option.splits)

text \<open>\<^verbatim>\<open>getModelScale\<close> tests the model, \<^verbatim>\<open>changeModelSize\<close> does not.\<close>

lemma model_before_initialize:
  "getModelScale (SceneManager_new cam) = Vector3 1 1 1"
  "changeModelSize s (SceneManager_new cam) = Inl TypeError"
  by (simp_all add: getModelScale_def changeModelSize_def SceneManager_new_def)

end
